theory Spec2Isabelle
  imports Main
begin

section \<open>Data model\<close>

text \<open>
  The repository declares six Django models. Every model has an implicit integer
  primary key \<open>id\<close> (the migration of the token registry shows it as a
  \<open>BigAutoField\<close>); a table is a list of (primary key, row) pairs, and a row holds the
  declared columns. Timestamps are readings of a clock, modelled as natural numbers.
  The value of a \<open>PositiveIntegerField\<close> is a natural number; the column stores it only
  up to the largest integer of the database (\<open>integer_max\<close> below).

  A foreign key appears in two forms. In a table it is the primary key of the
  referenced row. On a Python instance the attribute (\<open>self.token\<close>,
  \<open>self.token.chain\<close>) is the referenced object itself. The row records are
  therefore polymorphic in what stands at a foreign key: a primary key for a stored row, a
  saved instance for an object.
\<close>

type_synonym timestamp = nat

type_synonym 'r saved = "nat \<times> 'r"

type_synonym 'r table = "(nat \<times> 'r) list"

definition pk :: "'r saved \<Rightarrow> nat" where
  "pk x = fst x"

definition row_of :: "'r saved \<Rightarrow> 'r" where
  "row_of x = snd x"

text \<open>\<open>apps/chain/models.py\<close>: \<open>Chain(NamedModel)\<close>. It has no \<open>deleted_at\<close> column: it
  does not inherit \<open>SoftDeleteModel\<close>.\<close>

record Chain =
  c_name :: string
  c_chain_id :: nat
  c_native_currency :: string

text \<open>\<open>apps/tokens/models.py\<close>: \<open>ERC20Token(SoftDeleteModel, TimeStampedModel, NamedModel)\<close>,
  with the columns of \<open>tokens/migrations/0001_initial.py\<close>. \<open>chain\<close> is a mandatory
  foreign key (no \<open>null=True\<close>).\<close>

record 'chain ERC20Token =
  t_deleted_at :: "timestamp option"
  t_restored_at :: "timestamp option"
  t_name :: string
  t_created_at :: timestamp
  t_updated_at :: timestamp
  t_symbol :: string
  t_address :: string
  t_chain :: 'chain

text \<open>\<open>apps/payment/models.py\<close>:
  \<open>PaymentGroup(SoftDeleteModel, TimeStampedModel, WalletRelatedModel, NamedModel)\<close>.
  \<open>detail\<close>, \<open>chain\<close> and \<open>token\<close> are nullable. \<open>wallet\<close> is the mandatory foreign key of
  \<open>WalletRelatedModel\<close>; no method of the repository follows it, so it is kept as the
  key of the wallet (its Ethereum address) in both forms.\<close>

record ('chain, 'token) PaymentGroup =
  g_deleted_at :: "timestamp option"
  g_restored_at :: "timestamp option"
  g_created_at :: timestamp
  g_updated_at :: timestamp
  g_wallet :: string
  g_name :: string
  g_detail :: "string option"
  g_chain :: "'chain option"
  g_token :: "'token option"

text \<open>\<open>apps/payment/models.py\<close>: \<open>Payee(SoftDeleteModel, NamedModel)\<close>. \<open>wallet\<close> is a
  character column (an address, not a foreign key); \<open>payment_group\<close> is a mandatory
  foreign key. No method follows it, so it is kept as a primary key.\<close>

record Payee =
  pe_deleted_at :: "timestamp option"
  pe_restored_at :: "timestamp option"
  pe_name :: string
  pe_wallet :: string
  pe_payment_group :: nat
  pe_amount :: nat

text \<open>\<open>apps/payment/models.py\<close>: \<open>Payment(SoftDeleteModel, TimeStampedModel)\<close>.\<close>

record Payment =
  pm_deleted_at :: "timestamp option"
  pm_restored_at :: "timestamp option"
  pm_created_at :: timestamp
  pm_updated_at :: timestamp
  pm_payee :: nat

text \<open>\<open>apps/wallet/models.py\<close>: \<open>Wallet(SoftDeleteModel, AbstractWallet, TimeStampedModel)\<close>.
  \<open>AbstractWallet\<close> comes from the package \<open>siwe_auth\<close>; its columns are taken from the
  field sets of \<open>apps/wallet/admin.py\<close>. A wallet is identified by its Ethereum address,
  which is the key of the wallet table.\<close>

record Wallet =
  w_deleted_at :: "timestamp option"
  w_restored_at :: "timestamp option"
  w_created_at :: timestamp
  w_updated_at :: timestamp
  w_ens_name :: "string option"
  w_ens_avatar :: "string option"
  w_is_admin :: bool
  w_is_active :: bool

text \<open>Python instances: a saved chain, a saved token whose \<open>chain\<close> attribute is a saved
  chain, and a payment group whose \<open>chain\<close> and \<open>token\<close> attributes are such objects or
  \<open>None\<close>.\<close>

type_synonym Chain_obj = "Chain saved"

type_synonym ERC20Token_obj = "(Chain_obj ERC20Token) saved"

type_synonym PaymentGroup_obj = "(Chain_obj, ERC20Token_obj) PaymentGroup"

section \<open>Errors\<close>

text \<open>
  \<open>ValidationError\<close> is Django's exception of that name, raised by \<open>clean\<close> and by field
  validators, with its message. The storage layer refuses a write that breaks a declared
  constraint; the two kinds are kept apart as the specification names them, and a
  uniqueness violation carries the name of the constraint. \<open>OverflowError\<close> is raised
  for an integer that the database cannot store; it carries the name of the column.
\<close>

datatype error =
  ValidationError string
  | UniquenessViolation string
  | ReferentialIntegrityError string
  | OverflowError string

section \<open>Methods of PaymentGroup\<close>

text \<open>\<open>bool(x)\<close> for an attribute that holds a model instance or \<open>None\<close>: a model
  instance defines neither \<open>__bool__\<close> nor \<open>__len__\<close>, so it is true.\<close>

definition py_bool :: "'a option \<Rightarrow> bool" where
  "py_bool x = (case x of None \<Rightarrow> False | Some _ \<Rightarrow> True)"

text \<open>\<open>a != b\<close> for \<open>a\<close> a chain or \<open>None\<close> and \<open>b\<close> a chain. Two saved instances of one
  model are equal when their primary keys are; \<open>None\<close> differs from every instance.\<close>

definition model_ne :: "'r saved option \<Rightarrow> 'r saved \<Rightarrow> bool" where
  "model_ne a b = (case a of None \<Rightarrow> True | Some x \<Rightarrow> pk x \<noteq> pk b)"

text \<open>\<^verbatim>\<open>
    @property
    def use_erc20(self):
        return bool(self.token)

    @property
    def use_native_currency(self):
        return not bool(self.token)
\<close>\<close>

definition use_erc20 :: "('c, 't) PaymentGroup \<Rightarrow> bool" where
  "use_erc20 self = py_bool (g_token self)"

definition use_native_currency :: "('c, 't) PaymentGroup \<Rightarrow> bool" where
  "use_native_currency self = (\<not> py_bool (g_token self))"

text \<open>\<^verbatim>\<open>
    def clean(self):
        super().clean()
        if self.token and self.chain != self.token.chain:
            raise ValidationError("If a token is specified, it must belong to the same chain.")
\<close>
  \<open>super().clean()\<close> is the empty hook of the base model. \<open>and\<close> is short-circuit:
  \<open>self.token.chain\<close> is read only when \<open>self.token\<close> is set.\<close>

definition clean_message :: string where
  "clean_message = ''If a token is specified, it must belong to the same chain.''"

definition clean :: "PaymentGroup_obj \<Rightarrow> error + unit" where
  "clean self =
     (case g_token self of
        None \<Rightarrow> Inr ()
      | Some token \<Rightarrow>
          if py_bool (g_token self) \<and> model_ne (g_chain self) (t_chain (row_of token))
          then Inl (ValidationError clean_message)
          else Inr ())"

section \<open>The storage layer\<close>

text \<open>
  The database holds one table per model. A write is one statement: it either
  changes the store or is refused with an error and leaves the store as it was, so every
  operation returns the error, if any, and the store after it.

  The storage layer enforces what the models declare: primary keys, \<open>unique=True\<close>,
  the two \<open>UniqueConstraint\<close>s with their condition \<open>deleted_at=None\<close>, and the
  foreign keys. \<open>Model.save\<close> does not call \<open>clean\<close> or the field validators; no model
  of the repository overrides \<open>save\<close>.

  An integer column stores a signed 64-bit integer (SQLite, the database of a Django
  project unless its settings say otherwise; the settings are not among the files of
  the repository). A \<open>PositiveIntegerField\<close> above that is refused with \<open>OverflowError\<close>
  and nothing is written.
\<close>

definition integer_max :: nat where
  "integer_max = 9223372036854775807"

record store =
  chains :: "Chain table"
  wallets :: "(string \<times> Wallet) list"
  tokens :: "nat ERC20Token table"
  payment_groups :: "(nat, nat) PaymentGroup table"
  payees :: "Payee table"
  payments :: "Payment table"

definition empty_store :: store where
  "empty_store =
     \<lparr>chains = [], wallets = [], tokens = [], payment_groups = [], payees = [],
      payments = []\<rparr>"

definition pks :: "('k \<times> 'r) list \<Rightarrow> 'k set" where
  "pks tbl = fst ` set tbl"

text \<open>The key an automatic primary key column gives to a new row: one that no row has.\<close>

definition next_pk :: "'r table \<Rightarrow> nat" where
  "next_pk tbl = Suc (fold max (map fst tbl) 0)"

text \<open>Writing the row of key \<open>k\<close>: it replaces the row of that key if there is one.\<close>

definition put_at :: "'k \<Rightarrow> 'r \<Rightarrow> ('k \<times> 'r) list \<Rightarrow> ('k \<times> 'r) list" where
  "put_at k r tbl = (k, r) # filter (\<lambda>e. fst e \<noteq> k) tbl"

text \<open>\<open>save()\<close> of an instance whose primary key is \<open>p\<close>: with no key it inserts under a
  new key; with a key it updates the row of that key, or inserts it when there is none.
  \<open>is_add\<close> tells the insertion, when \<open>auto_now_add\<close> fields are set.\<close>

definition target_pk :: "nat option \<Rightarrow> 'r table \<Rightarrow> nat" where
  "target_pk p tbl = (case p of None \<Rightarrow> next_pk tbl | Some k \<Rightarrow> k)"

definition is_add :: "nat option \<Rightarrow> 'r table \<Rightarrow> bool" where
  "is_add p tbl = (case p of None \<Rightarrow> True | Some k \<Rightarrow> k \<notin> pks tbl)"

definition put :: "nat option \<Rightarrow> 'r \<Rightarrow> 'r table \<Rightarrow> 'r table" where
  "put p r tbl = put_at (target_pk p tbl) r tbl"

text \<open>
  A unique constraint over the columns \<open>cols\<close> with the condition \<open>cond\<close> (a partial
  unique index; \<open>unique=True\<close> on a column is the constraint on that column with no
  condition): among the rows that satisfy the condition no two agree on the columns.
  Writing the row \<open>r\<close> of key \<open>p\<close> breaks it when \<open>r\<close> satisfies the condition and a row
  of another key that satisfies it has the same columns.
\<close>

definition violates_unique ::
  "('r \<Rightarrow> 'f) \<Rightarrow> ('r \<Rightarrow> bool) \<Rightarrow> nat option \<Rightarrow> 'r \<Rightarrow> 'r table \<Rightarrow> bool" where
  "violates_unique cols cond p r tbl =
     (cond r \<and> (\<exists>e \<in> set tbl. Some (fst e) \<noteq> p \<and> cond (snd e) \<and> cols (snd e) = cols r))"

subsection \<open>Chain and Wallet\<close>

text \<open>\<open>chain_id = models.PositiveIntegerField(unique=True)\<close>: the value must fit the
  column, and no other row may hold the same \<open>chain_id\<close>.\<close>

definition save_chain :: "nat option \<Rightarrow> Chain \<Rightarrow> store \<Rightarrow> error option \<times> store" where
  "save_chain p r s =
     (if integer_max < c_chain_id r
      then (Some (OverflowError ''chain_id''), s)
      else if violates_unique c_chain_id (\<lambda>_. True) p r (chains s)
      then (Some (UniquenessViolation ''chain_id''), s)
      else (None, s\<lparr>chains := put p r (chains s)\<rparr>))"

text \<open>\<open>TimeStampedModel\<close>: \<open>created_at\<close> has \<open>auto_now_add=True\<close>, \<open>updated_at\<close> has
  \<open>auto_now=True\<close>.\<close>

definition save_wallet :: "string \<Rightarrow> timestamp \<Rightarrow> Wallet \<Rightarrow> store \<Rightarrow> error option \<times> store" where
  "save_wallet a now r s =
     (None,
      s\<lparr>wallets :=
          put_at a
            (r\<lparr>w_created_at := (if a \<notin> pks (wallets s) then now else w_created_at r),
               w_updated_at := now\<rparr>)
            (wallets s)\<rparr>)"

subsection \<open>ERC20Token\<close>

text \<open>\<^verbatim>\<open>
    models.UniqueConstraint(
        fields=('address', 'chain_id'),
        condition=models.Q(deleted_at=None),
        name='unique_erc20token_address_chain_id'
    )
\<close>
  The columns are \<open>address\<close> and \<open>chain_id\<close>; the condition is \<open>deleted_at IS NULL\<close>.\<close>

definition live_token :: "'c ERC20Token \<Rightarrow> bool" where
  "live_token r = (t_deleted_at r = None)"

definition token_address_chain_id :: "'c ERC20Token \<Rightarrow> string \<times> 'c" where
  "token_address_chain_id r = (t_address r, t_chain r)"

definition violates_unique_erc20token_address_chain_id ::
  "nat option \<Rightarrow> nat ERC20Token \<Rightarrow> nat ERC20Token table \<Rightarrow> bool" where
  "violates_unique_erc20token_address_chain_id =
     violates_unique token_address_chain_id live_token"

definition save_token ::
  "nat option \<Rightarrow> timestamp \<Rightarrow> nat ERC20Token \<Rightarrow> store \<Rightarrow> error option \<times> store" where
  "save_token p now r s =
     (if violates_unique_erc20token_address_chain_id p r (tokens s)
      then (Some (UniquenessViolation ''unique_erc20token_address_chain_id''), s)
      else if t_chain r \<notin> pks (chains s)
      then (Some (ReferentialIntegrityError ''chain''), s)
      else (None,
            s\<lparr>tokens :=
                put p
                  (r\<lparr>t_created_at := (if is_add p (tokens s) then now else t_created_at r),
                     t_updated_at := now\<rparr>)
                  (tokens s)\<rparr>))"

subsection \<open>PaymentGroup\<close>

text \<open>Three foreign keys: \<open>wallet\<close> (mandatory), \<open>chain\<close> and \<open>token\<close> (nullable). The
  model declares no constraint between \<open>chain\<close> and \<open>token\<close>.\<close>

definition fk_ok :: "'k option \<Rightarrow> ('k \<times> 'r) list \<Rightarrow> bool" where
  "fk_ok ref tbl = (case ref of None \<Rightarrow> True | Some k \<Rightarrow> k \<in> pks tbl)"

definition save_payment_group ::
  "nat option \<Rightarrow> timestamp \<Rightarrow> (nat, nat) PaymentGroup \<Rightarrow> store \<Rightarrow> error option \<times> store" where
  "save_payment_group p now r s =
     (if g_wallet r \<notin> pks (wallets s)
      then (Some (ReferentialIntegrityError ''wallet''), s)
      else if \<not> fk_ok (g_chain r) (chains s)
      then (Some (ReferentialIntegrityError ''chain''), s)
      else if \<not> fk_ok (g_token r) (tokens s)
      then (Some (ReferentialIntegrityError ''token''), s)
      else (None,
            s\<lparr>payment_groups :=
                put p
                  (r\<lparr>g_created_at :=
                       (if is_add p (payment_groups s) then now else g_created_at r),
                     g_updated_at := now\<rparr>)
                  (payment_groups s)\<rparr>))"

subsection \<open>Payee\<close>

text \<open>\<^verbatim>\<open>
    models.UniqueConstraint(
        fields=['wallet', 'payment_group'],
        condition=models.Q(deleted_at=None),
        name='payee_wallet_payment_group'
    )
\<close>\<close>

definition live_payee :: "Payee \<Rightarrow> bool" where
  "live_payee r = (pe_deleted_at r = None)"

definition payee_wallet_payment_group :: "Payee \<Rightarrow> string \<times> nat" where
  "payee_wallet_payment_group r = (pe_wallet r, pe_payment_group r)"

definition violates_payee_wallet_payment_group ::
  "nat option \<Rightarrow> Payee \<Rightarrow> Payee table \<Rightarrow> bool" where
  "violates_payee_wallet_payment_group =
     violates_unique payee_wallet_payment_group live_payee"

text \<open>\<open>amount = models.PositiveIntegerField()\<close>: an amount above \<open>integer_max\<close> is refused.
  A row that breaks the unique constraint and is out of range as well is refused either
  way and nothing is written; the program raises \<open>OverflowError\<close> for it, the model
  reports the constraint.\<close>

definition save_payee :: "nat option \<Rightarrow> Payee \<Rightarrow> store \<Rightarrow> error option \<times> store" where
  "save_payee p r s =
     (if violates_payee_wallet_payment_group p r (payees s)
      then (Some (UniquenessViolation ''payee_wallet_payment_group''), s)
      else if integer_max < pe_amount r
      then (Some (OverflowError ''amount''), s)
      else if pe_payment_group r \<notin> pks (payment_groups s)
      then (Some (ReferentialIntegrityError ''payment_group''), s)
      else (None, s\<lparr>payees := put p r (payees s)\<rparr>))"

subsection \<open>Payment\<close>

text \<open>\<open>payee = models.ForeignKey(Payee, on_delete=models.CASCADE)\<close>: the referenced row
  must be in the payee table. The foreign key carries no condition on \<open>deleted_at\<close>.\<close>

definition save_payment ::
  "nat option \<Rightarrow> timestamp \<Rightarrow> Payment \<Rightarrow> store \<Rightarrow> error option \<times> store" where
  "save_payment p now r s =
     (if pm_payee r \<notin> pks (payees s)
      then (Some (ReferentialIntegrityError ''payee''), s)
      else (None,
            s\<lparr>payments :=
                put p
                  (r\<lparr>pm_created_at := (if is_add p (payments s) then now else pm_created_at r),
                     pm_updated_at := now\<rparr>)
                  (payments s)\<rparr>))"

subsection \<open>Deleting a chain\<close>

text \<open>
  \<open>Chain\<close> inherits \<open>delete\<close> from the base model: the row is removed, and so is every row
  that reaches it through foreign keys declared \<open>on_delete=models.CASCADE\<close>:
  \<open>ERC20Token.chain\<close>, \<open>PaymentGroup.chain\<close>, \<open>PaymentGroup.token\<close>,
  \<open>Payee.payment_group\<close> and \<open>Payment.payee\<close>. The cascade works on the tables: it does not
  look at \<open>deleted_at\<close> and does not call the \<open>delete\<close> of the dependent models.
\<close>

definition cascade_tokens :: "nat \<Rightarrow> store \<Rightarrow> nat list" where
  "cascade_tokens c s = map fst (filter (\<lambda>e. t_chain (snd e) = c) (tokens s))"

definition cascade_groups :: "nat \<Rightarrow> store \<Rightarrow> nat list" where
  "cascade_groups c s =
     map fst
       (filter
          (\<lambda>e. g_chain (snd e) = Some c \<or>
                (case g_token (snd e) of
                   None \<Rightarrow> False
                 | Some t \<Rightarrow> t \<in> set (cascade_tokens c s)))
          (payment_groups s))"

definition cascade_payees :: "nat \<Rightarrow> store \<Rightarrow> nat list" where
  "cascade_payees c s =
     map fst (filter (\<lambda>e. pe_payment_group (snd e) \<in> set (cascade_groups c s)) (payees s))"

definition cascade_payments :: "nat \<Rightarrow> store \<Rightarrow> nat list" where
  "cascade_payments c s =
     map fst (filter (\<lambda>e. pm_payee (snd e) \<in> set (cascade_payees c s)) (payments s))"

definition delete_chain :: "nat \<Rightarrow> store \<Rightarrow> error option \<times> store" where
  "delete_chain c s =
     (None,
      s\<lparr>chains := filter (\<lambda>e. fst e \<noteq> c) (chains s),
        tokens := filter (\<lambda>e. fst e \<notin> set (cascade_tokens c s)) (tokens s),
        payment_groups :=
          filter (\<lambda>e. fst e \<notin> set (cascade_groups c s)) (payment_groups s),
        payees := filter (\<lambda>e. fst e \<notin> set (cascade_payees c s)) (payees s),
        payments := filter (\<lambda>e. fst e \<notin> set (cascade_payments c s)) (payments s)\<rparr>)"

subsection \<open>Histories\<close>

text \<open>The writes of the storage layer, and the store after a sequence of them (a refused
  write leaves the store as it was).\<close>

datatype op =
  SaveChain "nat option" Chain
  | SaveWallet string timestamp Wallet
  | SaveToken "nat option" timestamp "nat ERC20Token"
  | SavePaymentGroup "nat option" timestamp "(nat, nat) PaymentGroup"
  | SavePayee "nat option" Payee
  | SavePayment "nat option" timestamp Payment
  | DeleteChain nat

fun exec :: "op \<Rightarrow> store \<Rightarrow> error option \<times> store" where
  "exec (SaveChain p r) s = save_chain p r s"
| "exec (SaveWallet a now r) s = save_wallet a now r s"
| "exec (SaveToken p now r) s = save_token p now r s"
| "exec (SavePaymentGroup p now r) s = save_payment_group p now r s"
| "exec (SavePayee p r) s = save_payee p r s"
| "exec (SavePayment p now r) s = save_payment p now r s"
| "exec (DeleteChain c) s = delete_chain c s"

definition run :: "op list \<Rightarrow> store \<Rightarrow> store" where
  "run ops s = fold (\<lambda>x t. snd (exec x t)) ops s"

section \<open>Validation\<close>

text \<open>
  Validation is a step of its own: \<open>full_clean\<close> runs the validators of every field and
  then \<open>clean\<close>; the forms of the admin site, where \<open>apps/payment/admin.py\<close> registers
  \<open>Payee\<close>, \<open>Payment\<close> and \<open>PaymentGroup\<close>, call it and save only an instance that
  passed. A creation that validates first is therefore validation followed by \<open>save\<close>;
  a refused validation leaves the store as it was.
\<close>

text \<open>The row that \<open>save\<close> writes for an instance: each foreign key column holds the
  primary key of the related object.\<close>

definition group_row :: "PaymentGroup_obj \<Rightarrow> (nat, nat) PaymentGroup" where
  "group_row self =
     \<lparr>g_deleted_at = g_deleted_at self, g_restored_at = g_restored_at self,
      g_created_at = g_created_at self, g_updated_at = g_updated_at self,
      g_wallet = g_wallet self, g_name = g_name self, g_detail = g_detail self,
      g_chain = map_option pk (g_chain self), g_token = map_option pk (g_token self)\<rparr>"

definition create_payment_group ::
  "timestamp \<Rightarrow> PaymentGroup_obj \<Rightarrow> store \<Rightarrow> error option \<times> store" where
  "create_payment_group now self s =
     (case clean self of
        Inl e \<Rightarrow> (Some e, s)
      | Inr _ \<Rightarrow> save_payment_group None now (group_row self) s)"

text \<open>
  Modelled from the spec: \<open>validate_ethereum_address\<close>, which
  \<open>apps/payment/models.py\<close> imports from the package \<open>siwe_auth\<close>. The specification
  asks for "a syntactically valid Ethereum address -- fixed-length hex string with a
  recognized checksum/prefix format": the prefix \<open>0x\<close> and forty hexadecimal digits. The
  checksum rule (which letters are upper case) is not given; it is the parameter
  \<open>checksum\<close>.
\<close>

definition is_hex_digit :: "char \<Rightarrow> bool" where
  "is_hex_digit c = (c \<in> set ''0123456789abcdefABCDEF'')"

definition address_message :: string where
  "address_message = ''Enter a valid Ethereum address.''"

definition validate_ethereum_address :: "(string \<Rightarrow> bool) \<Rightarrow> string \<Rightarrow> error + unit" where
  "validate_ethereum_address checksum v =
     (if length v = 42 \<and> take 2 v = ''0x'' \<and> list_all is_hex_digit (drop 2 v) \<and> checksum v
      then Inr ()
      else Inl (ValidationError address_message))"

text \<open>\<open>wallet = models.CharField(max_length=255, validators=[validate_ethereum_address])\<close>:
  the validators of a field run in order; the value is refused when one of them raises.\<close>

fun run_validators :: "('a \<Rightarrow> error + unit) list \<Rightarrow> 'a \<Rightarrow> error + unit" where
  "run_validators [] v = Inr ()"
| "run_validators (f # fs) v = (case f v of Inl e \<Rightarrow> Inl e | Inr _ \<Rightarrow> run_validators fs v)"

definition payee_wallet_validators :: "(string \<Rightarrow> bool) \<Rightarrow> (string \<Rightarrow> error + unit) list" where
  "payee_wallet_validators checksum = [validate_ethereum_address checksum]"

definition create_payee ::
  "(string \<Rightarrow> bool) \<Rightarrow> Payee \<Rightarrow> store \<Rightarrow> error option \<times> store" where
  "create_payee checksum r s =
     (case run_validators (payee_wallet_validators checksum) (pe_wallet r) of
        Inl e \<Rightarrow> (Some e, s)
      | Inr _ \<Rightarrow> save_payee None r s)"

section \<open>Soft deletion\<close>

text \<open>
  Modelled from the spec: \<open>SoftDeleteModel.delete\<close>, of the package
  \<open>django_softdelete\<close>. "Soft-delete means deletion sets a timestamp marker rather than
  removing the row": the instance gets \<open>deleted_at\<close> set to the current time and is saved.
  What the package does to the rows that depend on the instance is not part of this
  definition.
\<close>

definition soft_delete_payee :: "Payee saved \<Rightarrow> timestamp \<Rightarrow> store \<Rightarrow> error option \<times> store" where
  "soft_delete_payee self now s =
     save_payee (Some (pk self)) ((row_of self)\<lparr>pe_deleted_at := Some now\<rparr>) s"

section \<open>Invariants of the store\<close>

text \<open>What a unique constraint promises of a table: two rows that satisfy the
  condition and agree on the columns are the same row.\<close>

definition unique_among :: "('r \<Rightarrow> 'f) \<Rightarrow> ('r \<Rightarrow> bool) \<Rightarrow> 'r table \<Rightarrow> bool" where
  "unique_among cols cond tbl =
     (\<forall>e1 \<in> set tbl. \<forall>e2 \<in> set tbl.
        cond (snd e1) \<and> cond (snd e2) \<and> cols (snd e1) = cols (snd e2) \<longrightarrow> fst e1 = fst e2)"

definition keys_ok :: "store \<Rightarrow> bool" where
  "keys_ok s =
     (distinct (map fst (chains s)) \<and> distinct (map fst (wallets s)) \<and>
      distinct (map fst (tokens s)) \<and> distinct (map fst (payment_groups s)) \<and>
      distinct (map fst (payees s)) \<and> distinct (map fst (payments s)))"

definition refs_ok :: "store \<Rightarrow> bool" where
  "refs_ok s =
     ((\<forall>e \<in> set (tokens s). t_chain (snd e) \<in> pks (chains s)) \<and>
      (\<forall>e \<in> set (payment_groups s).
         g_wallet (snd e) \<in> pks (wallets s) \<and> fk_ok (g_chain (snd e)) (chains s) \<and>
         fk_ok (g_token (snd e)) (tokens s)) \<and>
      (\<forall>e \<in> set (payees s). pe_payment_group (snd e) \<in> pks (payment_groups s)) \<and>
      (\<forall>e \<in> set (payments s). pm_payee (snd e) \<in> pks (payees s)))"

text \<open>Every stored amount fits its column.\<close>

definition amounts_ok :: "store \<Rightarrow> bool" where
  "amounts_ok s = (\<forall>e \<in> set (payees s). pe_amount (snd e) \<le> integer_max)"

definition wf :: "store \<Rightarrow> bool" where
  "wf s =
     (keys_ok s \<and> refs_ok s \<and> amounts_ok s \<and>
      unique_among c_chain_id (\<lambda>_. True) (chains s) \<and>
      unique_among token_address_chain_id live_token (tokens s) \<and>
      unique_among payee_wallet_payment_group live_payee (payees s))"

section \<open>A small database\<close>

text \<open>The scenario of the specification: two chains, a wallet, the token USDC on the
  first chain, a payment group of that wallet on that chain and token, and one payee.
  Every table starts empty, so each of these rows gets the primary key 1 but the second
  chain, which gets 2.\<close>

definition ethereum :: Chain where
  "ethereum = \<lparr>c_name = ''Ethereum'', c_chain_id = 1, c_native_currency = ''ETH''\<rparr>"

definition polygon :: Chain where
  "polygon = \<lparr>c_name = ''Polygon'', c_chain_id = 137, c_native_currency = ''MATIC''\<rparr>"

definition alice_address :: string where
  "alice_address = ''0x00000000000000000000000000000000000000a1''"

definition alice :: Wallet where
  "alice =
     \<lparr>w_deleted_at = None, w_restored_at = None, w_created_at = 0, w_updated_at = 0,
      w_ens_name = None, w_ens_avatar = None, w_is_admin = False, w_is_active = True\<rparr>"

definition usdc :: "'c \<Rightarrow> 'c ERC20Token" where
  "usdc c =
     \<lparr>t_deleted_at = None, t_restored_at = None, t_name = ''USD Coin'', t_created_at = 2,
      t_updated_at = 2, t_symbol = ''USDC'', t_address = ''0xA0b8'', t_chain = c\<rparr>"

definition team :: "'c option \<Rightarrow> 't option \<Rightarrow> ('c, 't) PaymentGroup" where
  "team c t =
     \<lparr>g_deleted_at = None, g_restored_at = None, g_created_at = 3, g_updated_at = 3,
      g_wallet = alice_address, g_name = ''Team'', g_detail = None, g_chain = c,
      g_token = t\<rparr>"

definition payee_of :: "string \<Rightarrow> nat \<Rightarrow> Payee" where
  "payee_of w g =
     \<lparr>pe_deleted_at = None, pe_restored_at = None, pe_name = ''Bob'', pe_wallet = w,
      pe_payment_group = g, pe_amount = 100\<rparr>"

definition bob_address :: string where
  "bob_address = ''0x00000000000000000000000000000000000000b2''"

definition payment_to :: "nat \<Rightarrow> Payment" where
  "payment_to k =
     \<lparr>pm_deleted_at = None, pm_restored_at = None, pm_created_at = 0, pm_updated_at = 0,
      pm_payee = k\<rparr>"

definition base_ops :: "op list" where
  "base_ops =
     [SaveChain None ethereum, SaveChain None polygon, SaveWallet alice_address 0 alice,
      SaveToken None 2 (usdc 1), SavePaymentGroup None 3 (team (Some 1) (Some 1)),
      SavePayee None (payee_of bob_address 1)]"

definition base_store :: store where
  "base_store = run base_ops empty_store"

text \<open>The same database with a second token, USDC on the second chain; it gets the
  primary key 2.\<close>

definition two_token_store :: store where
  "two_token_store = snd (save_token None 4 (usdc 2) base_store)"

text \<open>The small database after Bob's row got \<open>deleted_at = 9\<close>, and then with a payment
  to him.\<close>

definition bob_deleted_store :: store where
  "bob_deleted_store =
     snd (save_payee (Some 1) ((payee_of bob_address 1)\<lparr>pe_deleted_at := Some 9\<rparr>) base_store)"

definition paid_store :: store where
  "paid_store = snd (save_payment None 10 (payment_to 1) bob_deleted_store)"

text \<open>The objects of the scenario: the two chains and the token as Python instances.\<close>

definition ethereum_obj :: Chain_obj where
  "ethereum_obj = (1, ethereum)"

definition polygon_obj :: Chain_obj where
  "polygon_obj = (2, polygon)"

definition usdc_obj :: ERC20Token_obj where
  "usdc_obj = (1, usdc ethereum_obj)"

section \<open>Lemmas on tables\<close>

lemma set_put_at: "set (put_at k r tbl) = insert (k, r) {e \<in> set tbl. fst e \<noteq> k}"
  by (auto simp: put_at_def)

lemma pks_put_at: "pks (put_at k r tbl) = insert k (pks tbl)"
  by (force simp: put_at_def pks_def)

lemma distinct_put_at:
  "distinct (map fst tbl) \<Longrightarrow> distinct (map fst (put_at k r tbl))"
  by (auto simp: put_at_def distinct_map_filter)

lemma fold_max_ge: "(m::nat) \<le> fold max xs m"
proof (induction xs arbitrary: m)
  case Nil
  show ?case by simp
next
  case (Cons x xs)
  have "m \<le> max x m" by simp
  also have "\<dots> \<le> fold max xs (max x m)" by (rule Cons.IH)
  finally show ?case by simp
qed

lemma le_fold_max: "k \<in> set xs \<Longrightarrow> k \<le> fold max xs (m::nat)"
proof (induction xs arbitrary: m)
  case Nil
  then show ?case by simp
next
  case (Cons x xs)
  show ?case
  proof (cases "k = x")
    case True
    have "x \<le> max x m" by simp
    also have "\<dots> \<le> fold max xs (max x m)" by (rule fold_max_ge)
    finally show ?thesis using True by simp
  next
    case False
    with Cons show ?thesis by simp
  qed
qed

lemma next_pk_fresh: "next_pk tbl \<notin> pks tbl"
proof
  assume "next_pk tbl \<in> pks tbl"
  then have "next_pk tbl \<in> set (map fst tbl)" by (simp add: pks_def)
  then have "next_pk tbl \<le> fold max (map fst tbl) 0" by (rule le_fold_max)
  then show False by (simp add: next_pk_def)
qed

lemma other_row_iff:
  "e \<in> set tbl \<Longrightarrow> (Some (fst e) \<noteq> p) = (fst e \<noteq> target_pk p tbl)"
  using next_pk_fresh [of tbl]
  by (cases p) (force simp: target_pk_def pks_def)+

lemma pks_put: "pks (put p r tbl) = insert (target_pk p tbl) (pks tbl)"
  by (simp add: put_def pks_put_at)

lemma set_put:
  "set (put p r tbl) = insert (target_pk p tbl, r) {e \<in> set tbl. Some (fst e) \<noteq> p}"
  using other_row_iff [of _ tbl p] by (auto simp: put_def set_put_at)

lemma distinct_put: "distinct (map fst tbl) \<Longrightarrow> distinct (map fst (put p r tbl))"
  by (simp add: put_def distinct_put_at)



lemma unique_among_put:
  assumes "unique_among cols cond tbl" and "\<not> violates_unique cols cond p r tbl"
    and "cond r' = cond r" and "cols r' = cols r"
  shows "unique_among cols cond (put p r' tbl)"
  unfolding unique_among_def
proof (intro ballI impI)
  fix e1 e2
  assume e1: "e1 \<in> set (put p r' tbl)" and e2: "e2 \<in> set (put p r' tbl)"
    and h: "cond (snd e1) \<and> cond (snd e2) \<and> cols (snd e1) = cols (snd e2)"
  have new: "e = (target_pk p tbl, r') \<or> (e \<in> set tbl \<and> Some (fst e) \<noteq> p)"
    if "e \<in> set (put p r' tbl)" for e
    using that by (auto simp: set_put)
  have clash: False
    if "cond r'" and "e \<in> set tbl" and "Some (fst e) \<noteq> p" and "cond (snd e)"
      and "cols (snd e) = cols r'" for e
    using that assms(2,3,4) by (auto simp: violates_unique_def)
  from new [OF e1] new [OF e2] show "fst e1 = fst e2"
  proof (elim disjE conjE)
    assume "e1 = (target_pk p tbl, r')" "e2 = (target_pk p tbl, r')"
    then show ?thesis by simp
  next
    assume a: "e1 = (target_pk p tbl, r')" and b: "e2 \<in> set tbl" "Some (fst e2) \<noteq> p"
    from h a b have False by (intro clash [of e2]) simp_all
    then show ?thesis ..
  next
    assume a: "e2 = (target_pk p tbl, r')" and b: "e1 \<in> set tbl" "Some (fst e1) \<noteq> p"
    from h a b have False by (intro clash [of e1]) simp_all
    then show ?thesis ..
  next
    assume "e1 \<in> set tbl" "e2 \<in> set tbl"
    with assms(1) h show ?thesis unfolding unique_among_def by blast
  qed
qed

lemma unique_among_filter:
  "unique_among cols cond tbl \<Longrightarrow> unique_among cols cond (filter P tbl)"
  unfolding unique_among_def by simp


lemma tokens_save_token:
  "tokens (snd (save_token p now r s)) =
     (if fst (save_token p now r s) = None
      then put p (r\<lparr>t_created_at := (if is_add p (tokens s) then now else t_created_at r),
                     t_updated_at := now\<rparr>) (tokens s)
      else tokens s)"
  by (simp add: save_token_def)

lemma unique_tokens_save_token:
  assumes "unique_among token_address_chain_id live_token (tokens s)"
  shows "unique_among token_address_chain_id live_token (tokens (snd (save_token p now r s)))"
proof (cases "fst (save_token p now r s) = None")
  case True
  then have nv: "\<not> violates_unique token_address_chain_id live_token p r (tokens s)"
    by (auto simp: save_token_def violates_unique_erc20token_address_chain_id_def
        split: if_splits)
  show ?thesis
    unfolding tokens_save_token using True
    by (simp add: unique_among_put [OF assms nv] live_token_def token_address_chain_id_def)
next
  case False
  then have "snd (save_token p now r s) = s"
    by (auto simp: save_token_def split: if_splits)
  with assms show ?thesis by simp
qed

lemma payees_save_payee:
  "payees (snd (save_payee p r s)) =
     (if fst (save_payee p r s) = None then put p r (payees s) else payees s)"
  by (simp add: save_payee_def)

lemma unique_payees_save_payee:
  assumes "unique_among payee_wallet_payment_group live_payee (payees s)"
  shows "unique_among payee_wallet_payment_group live_payee (payees (snd (save_payee p r s)))"
proof (cases "fst (save_payee p r s) = None")
  case True
  then have nv: "\<not> violates_unique payee_wallet_payment_group live_payee p r (payees s)"
    by (auto simp: save_payee_def violates_payee_wallet_payment_group_def split: if_splits)
  show ?thesis
    unfolding payees_save_payee using True by (simp add: unique_among_put [OF assms nv])
next
  case False
  then have "snd (save_payee p r s) = s"
    by (auto simp: save_payee_def split: if_splits)
  with assms show ?thesis by simp
qed

lemma chains_save_chain:
  "chains (snd (save_chain p r s)) =
     (if fst (save_chain p r s) = None then put p r (chains s) else chains s)"
  by (simp add: save_chain_def)

lemma unique_chains_save_chain:
  assumes "unique_among c_chain_id (\<lambda>_. True) (chains s)"
  shows "unique_among c_chain_id (\<lambda>_. True) (chains (snd (save_chain p r s)))"
proof (cases "fst (save_chain p r s) = None")
  case True
  then have nv: "\<not> violates_unique c_chain_id (\<lambda>_. True) p r (chains s)"
    by (auto simp: save_chain_def split: if_splits)
  show ?thesis
    unfolding chains_save_chain using True by (simp add: unique_among_put [OF assms nv])
next
  case False
  then have "snd (save_chain p r s) = s"
    by (auto simp: save_chain_def split: if_splits)
  with assms show ?thesis by simp
qed

text \<open>Frame: which tables a write touches.\<close>

lemma frame_save_chain:
  "wallets (snd (save_chain p r s)) = wallets s"
  "tokens (snd (save_chain p r s)) = tokens s"
  "payment_groups (snd (save_chain p r s)) = payment_groups s"
  "payees (snd (save_chain p r s)) = payees s"
  "payments (snd (save_chain p r s)) = payments s"
  by (simp_all add: save_chain_def)

lemma frame_save_wallet:
  "chains (snd (save_wallet a now r s)) = chains s"
  "tokens (snd (save_wallet a now r s)) = tokens s"
  "payment_groups (snd (save_wallet a now r s)) = payment_groups s"
  "payees (snd (save_wallet a now r s)) = payees s"
  "payments (snd (save_wallet a now r s)) = payments s"
  by (simp_all add: save_wallet_def)

lemma frame_save_token:
  "chains (snd (save_token p now r s)) = chains s"
  "wallets (snd (save_token p now r s)) = wallets s"
  "payment_groups (snd (save_token p now r s)) = payment_groups s"
  "payees (snd (save_token p now r s)) = payees s"
  "payments (snd (save_token p now r s)) = payments s"
  by (simp_all add: save_token_def)

lemma frame_save_payment_group:
  "chains (snd (save_payment_group p now r s)) = chains s"
  "wallets (snd (save_payment_group p now r s)) = wallets s"
  "tokens (snd (save_payment_group p now r s)) = tokens s"
  "payees (snd (save_payment_group p now r s)) = payees s"
  "payments (snd (save_payment_group p now r s)) = payments s"
  by (simp_all add: save_payment_group_def)

lemma frame_save_payee:
  "chains (snd (save_payee p r s)) = chains s"
  "wallets (snd (save_payee p r s)) = wallets s"
  "tokens (snd (save_payee p r s)) = tokens s"
  "payment_groups (snd (save_payee p r s)) = payment_groups s"
  "payments (snd (save_payee p r s)) = payments s"
  by (simp_all add: save_payee_def)

lemma frame_save_payment:
  "chains (snd (save_payment p now r s)) = chains s"
  "wallets (snd (save_payment p now r s)) = wallets s"
  "tokens (snd (save_payment p now r s)) = tokens s"
  "payment_groups (snd (save_payment p now r s)) = payment_groups s"
  "payees (snd (save_payment p now r s)) = payees s"
  by (simp_all add: save_payment_def)

lemma tables_delete_chain:
  "chains (snd (delete_chain c s)) = filter (\<lambda>e. fst e \<noteq> c) (chains s)"
  "wallets (snd (delete_chain c s)) = wallets s"
  "tokens (snd (delete_chain c s)) =
     filter (\<lambda>e. fst e \<notin> set (cascade_tokens c s)) (tokens s)"
  "payment_groups (snd (delete_chain c s)) =
     filter (\<lambda>e. fst e \<notin> set (cascade_groups c s)) (payment_groups s)"
  "payees (snd (delete_chain c s)) =
     filter (\<lambda>e. fst e \<notin> set (cascade_payees c s)) (payees s)"
  "payments (snd (delete_chain c s)) =
     filter (\<lambda>e. fst e \<notin> set (cascade_payments c s)) (payments s)"
  by (simp_all add: delete_chain_def)

lemmas frames = frame_save_chain frame_save_wallet frame_save_token
  frame_save_payment_group frame_save_payee frame_save_payment tables_delete_chain

lemma unique_tokens_exec:
  "unique_among token_address_chain_id live_token (tokens s) \<Longrightarrow>
   unique_among token_address_chain_id live_token (tokens (snd (exec x s)))"
  by (cases x) (simp_all add: frames unique_tokens_save_token unique_among_filter)

lemma unique_payees_exec:
  "unique_among payee_wallet_payment_group live_payee (payees s) \<Longrightarrow>
   unique_among payee_wallet_payment_group live_payee (payees (snd (exec x s)))"
  by (cases x) (simp_all add: frames unique_payees_save_payee unique_among_filter)

lemma unique_chains_exec:
  "unique_among c_chain_id (\<lambda>_. True) (chains s) \<Longrightarrow>
   unique_among c_chain_id (\<lambda>_. True) (chains (snd (exec x s)))"
  by (cases x) (simp_all add: frames unique_chains_save_chain unique_among_filter)


lemma keys_ok_exec: "keys_ok s \<Longrightarrow> keys_ok (snd (exec x s))"
proof (cases x)
  case (SaveChain p r)
  assume "keys_ok s"
  then show ?thesis unfolding SaveChain keys_ok_def
    by (simp add: frames chains_save_chain distinct_put)
next
  case (SaveWallet a now r)
  assume "keys_ok s"
  then show ?thesis unfolding SaveWallet keys_ok_def
    by (simp add: frames) (simp add: save_wallet_def distinct_put_at)
next
  case (SaveToken p now r)
  assume "keys_ok s"
  then show ?thesis unfolding SaveToken keys_ok_def
    by (simp add: frames tokens_save_token distinct_put)
next
  case (SavePaymentGroup p now r)
  assume "keys_ok s"
  then show ?thesis unfolding SavePaymentGroup keys_ok_def
    by (simp add: frames) (simp add: save_payment_group_def distinct_put)
next
  case (SavePayee p r)
  assume "keys_ok s"
  then show ?thesis unfolding SavePayee keys_ok_def
    by (simp add: frames payees_save_payee distinct_put)
next
  case (SavePayment p now r)
  assume "keys_ok s"
  then show ?thesis unfolding SavePayment keys_ok_def
    by (simp add: frames) (simp add: save_payment_def distinct_put)
next
  case (DeleteChain c)
  assume "keys_ok s"
  then show ?thesis unfolding DeleteChain keys_ok_def
    by (simp add: frames distinct_map_filter)
qed

lemma fk_ok_mono: "fk_ok ref tbl \<Longrightarrow> pks tbl \<subseteq> pks tbl' \<Longrightarrow> fk_ok ref tbl'"
  by (cases ref) (auto simp: fk_ok_def)

lemma pks_put_mono: "pks tbl \<subseteq> pks (put p r tbl)"
  by (auto simp: pks_put)

lemma fk_ok_put: "fk_ok ref tbl \<Longrightarrow> fk_ok ref (put p r tbl)"
  by (rule fk_ok_mono [OF _ pks_put_mono])

lemma in_put: "e \<in> set (put p r tbl) \<Longrightarrow> e = (target_pk p tbl, r) \<or> e \<in> set tbl"
  by (auto simp: set_put)


lemma refs_ok_save_chain: "refs_ok s \<Longrightarrow> refs_ok (snd (save_chain p r s))"
  unfolding refs_ok_def
  by (simp add: frames chains_save_chain fk_ok_put pks_put)

lemma refs_ok_save_wallet: "refs_ok s \<Longrightarrow> refs_ok (snd (save_wallet a now r s))"
  unfolding refs_ok_def
  by (simp add: frames) (simp add: save_wallet_def pks_put_at)

lemma refs_ok_save_token:
  assumes "refs_ok s"
  shows "refs_ok (snd (save_token p now r s))"
proof (cases "fst (save_token p now r s) = None")
  case True
  then have fk: "t_chain r \<in> pks (chains s)"
    by (auto simp: save_token_def split: if_splits)
  have a: "t_chain (snd e) \<in> pks (chains s)"
    if "e \<in> set (tokens (snd (save_token p now r s)))" for e
    using that assms fk True
    by (auto simp: tokens_save_token refs_ok_def dest!: in_put)
  have b: "fk_ok (g_token (snd e)) (tokens (snd (save_token p now r s)))"
    if "e \<in> set (payment_groups s)" for e
    using that assms True
    by (simp add: tokens_save_token refs_ok_def fk_ok_put)
  from assms a b show ?thesis
    unfolding refs_ok_def by (simp add: frames)
next
  case False
  then have "snd (save_token p now r s) = s"
    by (auto simp: save_token_def split: if_splits)
  with assms show ?thesis by simp
qed

lemma refs_ok_save_payment_group:
  assumes "refs_ok s"
  shows "refs_ok (snd (save_payment_group p now r s))"
proof (cases "fst (save_payment_group p now r s) = None")
  case True
  then have fk: "g_wallet r \<in> pks (wallets s)" "fk_ok (g_chain r) (chains s)"
    "fk_ok (g_token r) (tokens s)"
    by (auto simp: save_payment_group_def split: if_splits)
  from True have tbl: "payment_groups (snd (save_payment_group p now r s)) =
      put p (r\<lparr>g_created_at := (if is_add p (payment_groups s) then now else g_created_at r),
               g_updated_at := now\<rparr>) (payment_groups s)"
    by (auto simp: save_payment_group_def split: if_splits)
  have a: "g_wallet (snd e) \<in> pks (wallets s) \<and> fk_ok (g_chain (snd e)) (chains s) \<and>
      fk_ok (g_token (snd e)) (tokens s)"
    if "e \<in> set (payment_groups (snd (save_payment_group p now r s)))" for e
    using that assms fk unfolding tbl
    by (auto simp: refs_ok_def dest!: in_put)
  have b: "pe_payment_group (snd e) \<in> pks (payment_groups (snd (save_payment_group p now r s)))"
    if "e \<in> set (payees s)" for e
    using that assms unfolding tbl
    by (auto simp: refs_ok_def pks_put)
  from assms a b show ?thesis
    unfolding refs_ok_def by (simp add: frames)
next
  case False
  then have "snd (save_payment_group p now r s) = s"
    by (auto simp: save_payment_group_def split: if_splits)
  with assms show ?thesis by simp
qed

lemma refs_ok_save_payee:
  assumes "refs_ok s"
  shows "refs_ok (snd (save_payee p r s))"
proof (cases "fst (save_payee p r s) = None")
  case True
  then have fk: "pe_payment_group r \<in> pks (payment_groups s)"
    by (auto simp: save_payee_def split: if_splits)
  have a: "pe_payment_group (snd e) \<in> pks (payment_groups s)"
    if "e \<in> set (payees (snd (save_payee p r s)))" for e
    using that assms fk True
    by (auto simp: payees_save_payee refs_ok_def dest!: in_put)
  have b: "pm_payee (snd e) \<in> pks (payees (snd (save_payee p r s)))"
    if "e \<in> set (payments s)" for e
    using that assms True
    by (auto simp: payees_save_payee refs_ok_def pks_put)
  from assms a b show ?thesis
    unfolding refs_ok_def by (simp add: frames)
next
  case False
  then have "snd (save_payee p r s) = s"
    by (auto simp: save_payee_def split: if_splits)
  with assms show ?thesis by simp
qed

lemma refs_ok_save_payment:
  assumes "refs_ok s"
  shows "refs_ok (snd (save_payment p now r s))"
proof (cases "fst (save_payment p now r s) = None")
  case True
  then have fk: "pm_payee r \<in> pks (payees s)"
    by (auto simp: save_payment_def split: if_splits)
  from True have tbl: "payments (snd (save_payment p now r s)) =
      put p (r\<lparr>pm_created_at := (if is_add p (payments s) then now else pm_created_at r),
               pm_updated_at := now\<rparr>) (payments s)"
    by (auto simp: save_payment_def split: if_splits)
  have a: "pm_payee (snd e) \<in> pks (payees s)"
    if "e \<in> set (payments (snd (save_payment p now r s)))" for e
    using that assms fk unfolding tbl
    by (auto simp: refs_ok_def dest!: in_put)
  from assms a show ?thesis
    unfolding refs_ok_def by (simp add: frames)
next
  case False
  then have "snd (save_payment p now r s) = s"
    by (auto simp: save_payment_def split: if_splits)
  with assms show ?thesis by simp
qed


lemma in_cascade_tokens:
  "k \<in> set (cascade_tokens c s) \<longleftrightarrow> (\<exists>r. (k, r) \<in> set (tokens s) \<and> t_chain r = c)"
  by (force simp: cascade_tokens_def)

lemma in_cascade_groups:
  "k \<in> set (cascade_groups c s) \<longleftrightarrow>
     (\<exists>r. (k, r) \<in> set (payment_groups s) \<and>
        (g_chain r = Some c \<or> (\<exists>t. g_token r = Some t \<and> t \<in> set (cascade_tokens c s))))"
  by (force simp: cascade_groups_def split: option.splits)

lemma in_cascade_payees:
  "k \<in> set (cascade_payees c s) \<longleftrightarrow>
     (\<exists>r. (k, r) \<in> set (payees s) \<and> pe_payment_group r \<in> set (cascade_groups c s))"
  by (force simp: cascade_payees_def)

lemma in_cascade_payments:
  "k \<in> set (cascade_payments c s) \<longleftrightarrow>
     (\<exists>r. (k, r) \<in> set (payments s) \<and> pm_payee r \<in> set (cascade_payees c s))"
  by (force simp: cascade_payments_def)

lemma kept_pk:
  "k \<in> pks tbl \<Longrightarrow> k \<notin> set dead \<Longrightarrow> k \<in> pks (filter (\<lambda>e. fst e \<notin> set dead) tbl)"
  by (force simp: pks_def)

lemma refs_ok_delete_chain:
  assumes "refs_ok s"
  shows "refs_ok (snd (delete_chain c s))"
proof -
  have a: "t_chain r \<in> pks (filter (\<lambda>e. fst e \<noteq> c) (chains s))"
    if "(k, r) \<in> set (tokens s)" "k \<notin> set (cascade_tokens c s)" for k r
  proof -
    from that have "t_chain r \<noteq> c" by (auto simp: in_cascade_tokens)
    moreover from that assms have "t_chain r \<in> pks (chains s)"
      by (auto simp: refs_ok_def)
    ultimately show ?thesis by (force simp: pks_def)
  qed
  have b: "fk_ok (g_chain r) (filter (\<lambda>e. fst e \<noteq> c) (chains s)) \<and>
      fk_ok (g_token r) (filter (\<lambda>e. fst e \<notin> set (cascade_tokens c s)) (tokens s))"
    if "(k, r) \<in> set (payment_groups s)" "k \<notin> set (cascade_groups c s)" for k r
  proof -
    from that have 1: "g_chain r \<noteq> Some c"
      and 2: "\<And>t. g_token r = Some t \<Longrightarrow> t \<notin> set (cascade_tokens c s)"
      by (auto simp: in_cascade_groups)
    from that assms have 3: "fk_ok (g_chain r) (chains s)" "fk_ok (g_token r) (tokens s)"
      by (auto simp: refs_ok_def)
    from 1 3(1) have "fk_ok (g_chain r) (filter (\<lambda>e. fst e \<noteq> c) (chains s))"
      by (cases "g_chain r") (force simp: fk_ok_def pks_def)+
    moreover from 2 3(2)
    have "fk_ok (g_token r) (filter (\<lambda>e. fst e \<notin> set (cascade_tokens c s)) (tokens s))"
      by (cases "g_token r") (simp_all add: fk_ok_def kept_pk)
    ultimately show ?thesis by simp
  qed
  have c: "pe_payment_group r \<in>
      pks (filter (\<lambda>e. fst e \<notin> set (cascade_groups c s)) (payment_groups s))"
    if "(k, r) \<in> set (payees s)" "k \<notin> set (cascade_payees c s)" for k r
  proof -
    from that have "pe_payment_group r \<notin> set (cascade_groups c s)"
      by (auto simp: in_cascade_payees)
    moreover from that assms have "pe_payment_group r \<in> pks (payment_groups s)"
      by (auto simp: refs_ok_def)
    ultimately show ?thesis by (rule kept_pk [rotated])
  qed
  have d: "pm_payee r \<in> pks (filter (\<lambda>e. fst e \<notin> set (cascade_payees c s)) (payees s))"
    if "(k, r) \<in> set (payments s)" "k \<notin> set (cascade_payments c s)" for k r
  proof -
    from that have "pm_payee r \<notin> set (cascade_payees c s)"
      by (auto simp: in_cascade_payments)
    moreover from that assms have "pm_payee r \<in> pks (payees s)"
      by (auto simp: refs_ok_def)
    ultimately show ?thesis by (rule kept_pk [rotated])
  qed
  from assms have w: "\<forall>e \<in> set (payment_groups s). g_wallet (snd e) \<in> pks (wallets s)"
    by (simp add: refs_ok_def)
  show ?thesis
    unfolding refs_ok_def tables_delete_chain
    using a b c d w by (auto simp del: set_filter simp add: set_filter)
qed

lemma refs_ok_exec: "refs_ok s \<Longrightarrow> refs_ok (snd (exec x s))"
  by (cases x)
    (simp_all add: refs_ok_save_chain refs_ok_save_wallet refs_ok_save_token
      refs_ok_save_payment_group refs_ok_save_payee refs_ok_save_payment
      refs_ok_delete_chain)

section \<open>Evaluating the small database\<close>

lemmas store_defs = run_def save_chain_def save_wallet_def save_token_def
  save_payment_group_def save_payee_def save_payment_def violates_unique_def
  violates_unique_erc20token_address_chain_id_def violates_payee_wallet_payment_group_def
  put_def put_at_def target_pk_def next_pk_def is_add_def pks_def fk_ok_def empty_store_def
  integer_max_def
  live_token_def live_payee_def token_address_chain_id_def payee_wallet_payment_group_def

lemmas fixture_defs = ethereum_def polygon_def alice_def alice_address_def usdc_def team_def
  payee_of_def bob_address_def payment_to_def

lemma base_store_eq:
  "base_store =
     \<lparr>chains = [(2, polygon), (1, ethereum)],
      wallets = [(alice_address, alice)],
      tokens = [(1, usdc 1)],
      payment_groups = [(1, team (Some 1) (Some 1))],
      payees = [(1, payee_of bob_address 1)],
      payments = []\<rparr>"
  by (simp add: base_store_def base_ops_def store_defs fixture_defs)

lemma two_token_store_eq:
  "two_token_store =
     \<lparr>chains = [(2, polygon), (1, ethereum)],
      wallets = [(alice_address, alice)],
      tokens = [(2, (usdc 2)\<lparr>t_created_at := 4, t_updated_at := 4\<rparr>), (1, usdc 1)],
      payment_groups = [(1, team (Some 1) (Some 1))],
      payees = [(1, payee_of bob_address 1)],
      payments = []\<rparr>"
  by (simp add: two_token_store_def base_store_eq store_defs fixture_defs)

lemma bob_deleted_store_eq:
  "bob_deleted_store =
     \<lparr>chains = [(2, polygon), (1, ethereum)],
      wallets = [(alice_address, alice)],
      tokens = [(1, usdc 1)],
      payment_groups = [(1, team (Some 1) (Some 1))],
      payees = [(1, (payee_of bob_address 1)\<lparr>pe_deleted_at := Some 9\<rparr>)],
      payments = []\<rparr>"
  by (simp add: bob_deleted_store_def base_store_eq store_defs fixture_defs)

lemma paid_store_eq:
  "paid_store =
     \<lparr>chains = [(2, polygon), (1, ethereum)],
      wallets = [(alice_address, alice)],
      tokens = [(1, usdc 1)],
      payment_groups = [(1, team (Some 1) (Some 1))],
      payees = [(1, (payee_of bob_address 1)\<lparr>pe_deleted_at := Some 9\<rparr>)],
      payments = [(1, (payment_to 1)\<lparr>pm_created_at := 10, pm_updated_at := 10\<rparr>)]\<rparr>"
  by (simp add: paid_store_def bob_deleted_store_eq store_defs fixture_defs)

lemma dead_pk: "k \<in> set dead \<Longrightarrow> k \<notin> pks (filter (\<lambda>e. fst e \<notin> set dead) tbl)"
  by (auto simp: pks_def)

section \<open>Every history keeps the store well-formed\<close>

lemma amounts_ok_exec: "amounts_ok s \<Longrightarrow> amounts_ok (snd (exec x s))"
proof (cases x)
  case (SavePayee p r)
  assume a: "amounts_ok s"
  show ?thesis
  proof (cases "fst (save_payee p r s) = None")
    case True
    then have "pe_amount r \<le> integer_max"
      by (auto simp: save_payee_def split: if_splits)
    with a True show ?thesis
      unfolding SavePayee amounts_ok_def
      by (auto simp: payees_save_payee dest!: in_put)
  next
    case False
    then have "snd (save_payee p r s) = s"
      by (auto simp: save_payee_def split: if_splits)
    with a show ?thesis unfolding SavePayee by simp
  qed
next
  case (DeleteChain c)
  assume "amounts_ok s"
  then show ?thesis
    unfolding DeleteChain amounts_ok_def by (simp add: frames)
qed (simp_all add: amounts_ok_def frames)

lemma wf_empty_store: "wf empty_store"
  by (simp add: wf_def keys_ok_def refs_ok_def amounts_ok_def unique_among_def
      empty_store_def)

lemma wf_exec: "wf s \<Longrightarrow> wf (snd (exec x s))"
  unfolding wf_def
  by (simp add: keys_ok_exec refs_ok_exec amounts_ok_exec unique_chains_exec
      unique_tokens_exec unique_payees_exec)

lemma run_Cons: "run (x # xs) s = run xs (snd (exec x s))"
  by (simp add: run_def)

lemma wf_run: "wf s \<Longrightarrow> wf (run ops s)"
proof (induction ops arbitrary: s)
  case Nil
  then show ?case by (simp add: run_def)
next
  case (Cons x xs)
  from Cons.prems have "wf (snd (exec x s))" by (rule wf_exec)
  then show ?case unfolding run_Cons by (rule Cons.IH)
qed

lemma wf_history: "wf (run ops empty_store)"
  by (rule wf_run [OF wf_empty_store])

section \<open>Properties\<close>

text \<open>
  Claim C8. For every payment group, \<open>use_erc20\<close> holds exactly when the token is set,
  \<open>use_native_currency\<close> holds exactly when the token is unset, and exactly one of the two
  holds.
\<close>

theorem use_erc20_xor_use_native_currency:
  "(use_erc20 g \<longleftrightarrow> g_token g \<noteq> None)
   \<and> (use_native_currency g \<longleftrightarrow> g_token g = None)
   \<and> (use_erc20 g \<noteq> use_native_currency g)"
  by (cases "g_token g") (simp_all add: use_erc20_def use_native_currency_def py_bool_def)

text \<open>
  Claim C2. Among the token rows whose \<open>deleted_at\<close> is null the pair (address, chain) is
  unique, in every store that a history of writes produces; a token written live, as a
  new row or over an existing one, while another live row holds the same address and
  chain is refused with the uniqueness violation of the constraint
  \<open>unique_erc20token_address_chain_id\<close>, and the store is returned as it was.
\<close>

theorem live_tokens_unique_by_address_and_chain:
  "unique_among token_address_chain_id live_token (tokens (run ops empty_store))
   \<and> distinct (map fst (tokens (run ops empty_store)))
   \<and> (live_token r \<and>
        (\<exists>e \<in> set (tokens s). Some (fst e) \<noteq> p \<and> live_token (snd e) \<and>
           t_address (snd e) = t_address r \<and> t_chain (snd e) = t_chain r)
      \<longrightarrow> save_token p now r s =
            (Some (UniquenessViolation ''unique_erc20token_address_chain_id''), s))"
proof -
  have "wf (run ops empty_store)"
    by (rule wf_history)
  then have "unique_among token_address_chain_id live_token (tokens (run ops empty_store))"
    and "distinct (map fst (tokens (run ops empty_store)))"
    by (simp_all add: wf_def keys_ok_def)
  moreover have "save_token p now r s =
      (Some (UniquenessViolation ''unique_erc20token_address_chain_id''), s)"
    if "live_token r" and "\<exists>e \<in> set (tokens s). Some (fst e) \<noteq> p \<and> live_token (snd e) \<and>
           t_address (snd e) = t_address r \<and> t_chain (snd e) = t_chain r"
  proof -
    from that have "violates_unique_erc20token_address_chain_id p r (tokens s)"
      unfolding violates_unique_erc20token_address_chain_id_def violates_unique_def
        token_address_chain_id_def
      by auto
    then show ?thesis by (simp add: save_token_def)
  qed
  ultimately show ?thesis by blast
qed

text \<open>In the small database: a second USDC on the first chain is refused as a new row,
  and so is moving the token of key 2 onto the first chain.\<close>

theorem live_tokens_unique_by_address_and_chain_witness:
  "unique_among token_address_chain_id live_token (tokens base_store)
   \<and> distinct (map fst (tokens base_store))
   \<and> save_token None 9 (usdc 1) base_store =
       (Some (UniquenessViolation ''unique_erc20token_address_chain_id''), base_store)
   \<and> save_token (Some 2) 9 (usdc 1) two_token_store =
       (Some (UniquenessViolation ''unique_erc20token_address_chain_id''), two_token_store)"
proof -
  have live: "live_token (usdc (1::nat))"
    by (simp add: live_token_def usdc_def)
  have dup: "\<exists>e \<in> set (tokens base_store). Some (fst e) \<noteq> None \<and> live_token (snd e) \<and>
      t_address (snd e) = t_address (usdc (1::nat)) \<and> t_chain (snd e) = t_chain (usdc (1::nat))"
    using live by (simp add: base_store_eq)
  have dup2: "\<exists>e \<in> set (tokens two_token_store). Some (fst e) \<noteq> Some 2 \<and>
      live_token (snd e) \<and> t_address (snd e) = t_address (usdc (1::nat)) \<and>
      t_chain (snd e) = t_chain (usdc (1::nat))"
    using live by (simp add: two_token_store_eq)
  from live_tokens_unique_by_address_and_chain [of base_ops "usdc 1" base_store None 9]
    live_tokens_unique_by_address_and_chain [of base_ops "usdc 1" two_token_store "Some 2" 9]
    live dup dup2
  show ?thesis unfolding base_store_def [symmetric] by simp
qed



text \<open>
  Claim C4. For every live payee \<open>p\<close> of a store that a history of writes produces:
  soft-deleting \<open>p\<close> succeeds and keeps its row, marked with the time of deletion; and in
  the store after it, creating a payee with the same wallet and payment group (and an
  amount that fits the column) succeeds: the new row is stored under a key that no row
  had, beside the marked one. The same creation is refused before the deletion when
  the new payee is live.
\<close>

theorem soft_deleted_payee_can_be_created_again:
  assumes "s = run ops empty_store"
    and "(k, r) \<in> set (payees s)"
    and "live_payee r"
    and "pe_wallet r' = pe_wallet r"
    and "pe_payment_group r' = pe_payment_group r"
    and "pe_amount r' \<le> integer_max"
    and "s1 = snd (soft_delete_payee (k, r) now s)"
  shows "fst (soft_delete_payee (k, r) now s) = None
    \<and> (k, r\<lparr>pe_deleted_at := Some now\<rparr>) \<in> set (payees s1)
    \<and> fst (save_payee None r' s1) = None
    \<and> (\<exists>k'. k' \<notin> pks (payees s1)
           \<and> (k', r') \<in> set (payees (snd (save_payee None r' s1))))
    \<and> (k, r\<lparr>pe_deleted_at := Some now\<rparr>) \<in> set (payees (snd (save_payee None r' s1)))
    \<and> (live_payee r' \<longrightarrow>
         save_payee None r' s = (Some (UniquenessViolation ''payee_wallet_payment_group''), s))"
proof -
  let ?rd = "r\<lparr>pe_deleted_at := Some now\<rparr>"
  have wf: "wf s"
    unfolding assms(1) by (rule wf_history)
  from wf assms(2) have group: "pe_payment_group r \<in> pks (payment_groups s)"
    by (auto simp: wf_def refs_ok_def)
  from wf assms(2) have amount: "\<not> integer_max < pe_amount r"
    by (auto simp: wf_def amounts_ok_def)
  from wf have uniq: "unique_among payee_wallet_payment_group live_payee (payees s)"
    by (simp add: wf_def)
  have "\<not> live_payee ?rd"
    by (simp add: live_payee_def)
  then have nv: "\<not> violates_payee_wallet_payment_group (Some k) ?rd (payees s)"
    by (simp add: violates_payee_wallet_payment_group_def violates_unique_def)
  have del: "soft_delete_payee (k, r) now s = (None, s\<lparr>payees := put (Some k) ?rd (payees s)\<rparr>)"
    using nv group amount by (simp add: soft_delete_payee_def save_payee_def pk_def row_of_def)
  then have s1: "s1 = s\<lparr>payees := put (Some k) ?rd (payees s)\<rparr>"
    by (simp add: assms(7))
  have rows: "set (payees s1) = insert (k, ?rd) {e \<in> set (payees s). fst e \<noteq> k}"
    by (simp add: s1 put_def target_pk_def set_put_at)
  have no_other: "\<not> (live_payee (snd e) \<and> pe_wallet (snd e) = pe_wallet r' \<and>
      pe_payment_group (snd e) = pe_payment_group r')" if "e \<in> set (payees s1)" for e
  proof
    assume h: "live_payee (snd e) \<and> pe_wallet (snd e) = pe_wallet r' \<and>
      pe_payment_group (snd e) = pe_payment_group r'"
    from that rows have "e = (k, ?rd) \<or> (e \<in> set (payees s) \<and> fst e \<noteq> k)"
      by auto
    then show False
    proof
      assume "e = (k, ?rd)"
      with h show False by (simp add: live_payee_def)
    next
      assume old: "e \<in> set (payees s) \<and> fst e \<noteq> k"
      from h assms(4,5) have "payee_wallet_payment_group (snd e) = payee_wallet_payment_group r"
        by (simp add: payee_wallet_payment_group_def)
      with uniq old assms(2,3) h have "fst e = fst (k, r)"
        unfolding unique_among_def by (metis snd_conv)
      with old show False by simp
    qed
  qed
  then have nv': "\<not> violates_payee_wallet_payment_group None r' (payees s1)"
    by (auto simp: violates_payee_wallet_payment_group_def violates_unique_def
        payee_wallet_payment_group_def)
  from group assms(5) have group': "pe_payment_group r' \<in> pks (payment_groups s1)"
    by (simp add: s1)
  from assms(6) have amount': "\<not> integer_max < pe_amount r'"
    by simp
  from nv' group' amount'
  have again: "save_payee None r' s1 = (None, s1\<lparr>payees := put None r' (payees s1)\<rparr>)"
    by (simp add: save_payee_def)
  have fresh: "next_pk (payees s1) \<notin> pks (payees s1)"
    by (rule next_pk_fresh)
  have new: "(next_pk (payees s1), r') \<in> set (payees (snd (save_payee None r' s1)))"
    unfolding again by (simp add: put_def target_pk_def set_put_at)
  from fresh new have some_key: "\<exists>k'. k' \<notin> pks (payees s1)
      \<and> (k', r') \<in> set (payees (snd (save_payee None r' s1)))"
    by blast
  have marked: "(k, ?rd) \<in> set (payees s1)"
    using rows by simp
  then have "k \<in> pks (payees s1)"
    by (force simp: pks_def)
  with fresh have "k \<noteq> next_pk (payees s1)"
    by auto
  with marked have kept: "(k, ?rd) \<in> set (payees (snd (save_payee None r' s1)))"
    unfolding again by (simp add: put_def target_pk_def set_put_at)
  have before: "save_payee None r' s = (Some (UniquenessViolation ''payee_wallet_payment_group''), s)"
    if "live_payee r'"
  proof -
    from that assms(2,3,4,5) have "violates_payee_wallet_payment_group None r' (payees s)"
      unfolding violates_payee_wallet_payment_group_def violates_unique_def
        payee_wallet_payment_group_def
      by force
    then show ?thesis by (simp add: save_payee_def)
  qed
  from del marked again some_key kept before show ?thesis
    by simp
qed

text \<open>In the small database: Bob is soft-deleted at time 9, and a payee with his wallet
  is created again in the same group, under the key 2. An amount of \<open>2 ^ 63\<close> does not
  fit the column and is refused.\<close>

theorem soft_deleted_payee_can_be_created_again_witness:
  "fst (soft_delete_payee (1, payee_of bob_address 1) 9 base_store) = None
   \<and> (1, (payee_of bob_address 1)\<lparr>pe_deleted_at := Some 9\<rparr>)
       \<in> set (payees (snd (soft_delete_payee (1, payee_of bob_address 1) 9 base_store)))
   \<and> fst (save_payee None (payee_of bob_address 1)
           (snd (soft_delete_payee (1, payee_of bob_address 1) 9 base_store))) = None
   \<and> (\<exists>k'. k' \<notin> pks (payees (snd (soft_delete_payee (1, payee_of bob_address 1) 9 base_store)))
          \<and> (k', payee_of bob_address 1)
              \<in> set (payees (snd (save_payee None (payee_of bob_address 1)
                    (snd (soft_delete_payee (1, payee_of bob_address 1) 9 base_store))))))
   \<and> save_payee None (payee_of bob_address 1) base_store =
       (Some (UniquenessViolation ''payee_wallet_payment_group''), base_store)
   \<and> payees (snd (save_payee None (payee_of bob_address 1)
        (snd (soft_delete_payee (1, payee_of bob_address 1) 9 base_store)))) =
       [(2, payee_of bob_address 1), (1, (payee_of bob_address 1)\<lparr>pe_deleted_at := Some 9\<rparr>)]
   \<and> save_payee None ((payee_of bob_address 1)\<lparr>pe_amount := 2 ^ 63\<rparr>) bob_deleted_store =
       (Some (OverflowError ''amount''), bob_deleted_store)"
proof -
  have a: "(1, payee_of bob_address 1) \<in> set (payees base_store)"
    by (simp add: base_store_eq)
  have b: "live_payee (payee_of bob_address 1)"
    by (simp add: live_payee_def payee_of_def)
  have c: "pe_amount (payee_of bob_address 1) \<le> integer_max"
    by (simp add: payee_of_def integer_max_def)
  have d: "snd (soft_delete_payee (1, payee_of bob_address 1) 9 base_store) = bob_deleted_store"
    by (simp add: soft_delete_payee_def bob_deleted_store_def pk_def row_of_def)
  have e: "payees (snd (save_payee None (payee_of bob_address 1) bob_deleted_store)) =
      [(2, payee_of bob_address 1), (1, (payee_of bob_address 1)\<lparr>pe_deleted_at := Some 9\<rparr>)]"
    by (simp add: bob_deleted_store_eq store_defs fixture_defs)
  have f: "save_payee None ((payee_of bob_address 1)\<lparr>pe_amount := 2 ^ 63\<rparr>) bob_deleted_store =
      (Some (OverflowError ''amount''), bob_deleted_store)"
    by (simp add: bob_deleted_store_eq store_defs fixture_defs)
  from soft_deleted_payee_can_be_created_again
    [OF base_store_def a b refl refl c refl, of 9]
  show ?thesis using b e f unfolding d by simp
qed

text \<open>
  Claim C10. A chain has no soft-delete marker (the record \<open>Chain\<close> has no \<open>deleted_at\<close>
  field), and deleting a chain always succeeds and removes rows: the chain, every token
  that references it, every payment group that references it (or one of those tokens),
  every payee of such a group and every payment of such a payee are no longer in their
  tables, whatever their \<open>deleted_at\<close>. No row is marked instead: each row that stays is a
  row of the store before. Wallets and other chains stay, and so do the tokens of other chains (keys being
  distinct).
\<close>

theorem deleting_a_chain_removes_its_dependents:
  assumes "s' = snd (delete_chain c s)"
  shows "fst (delete_chain c s) = None
    \<and> c \<notin> pks (chains s')
    \<and> (\<forall>t \<in> set (tokens s). t_chain (snd t) = c \<longrightarrow> fst t \<notin> pks (tokens s'))
    \<and> (\<forall>g \<in> set (payment_groups s).
          g_chain (snd g) = Some c \<or>
          (\<exists>t \<in> set (tokens s). t_chain (snd t) = c \<and> g_token (snd g) = Some (fst t))
          \<longrightarrow> fst g \<notin> pks (payment_groups s')
              \<and> (\<forall>p \<in> set (payees s). pe_payment_group (snd p) = fst g
                    \<longrightarrow> fst p \<notin> pks (payees s')
                        \<and> (\<forall>m \<in> set (payments s). pm_payee (snd m) = fst p
                              \<longrightarrow> fst m \<notin> pks (payments s'))))
    \<and> set (tokens s') \<subseteq> set (tokens s)
    \<and> set (payment_groups s') \<subseteq> set (payment_groups s)
    \<and> set (payees s') \<subseteq> set (payees s)
    \<and> set (payments s') \<subseteq> set (payments s)
    \<and> wallets s' = wallets s
    \<and> (\<forall>e \<in> set (chains s). fst e \<noteq> c \<longrightarrow> e \<in> set (chains s'))
    \<and> (distinct (map fst (tokens s))
        \<longrightarrow> (\<forall>t \<in> set (tokens s). t_chain (snd t) \<noteq> c \<longrightarrow> t \<in> set (tokens s')))"
proof -
  have ok: "fst (delete_chain c s) = None"
    by (simp add: delete_chain_def)
  have chain: "c \<notin> pks (chains s')"
    unfolding assms tables_delete_chain by (auto simp: pks_def)
  have tok: "fst t \<notin> pks (tokens s')" if "t \<in> set (tokens s)" "t_chain (snd t) = c" for t
  proof -
    from that have "(fst t, snd t) \<in> set (tokens s) \<and> t_chain (snd t) = c"
      by simp
    then have "fst t \<in> set (cascade_tokens c s)"
      unfolding in_cascade_tokens by blast
    then show ?thesis unfolding assms tables_delete_chain by (rule dead_pk)
  qed
  have grp_dead: "fst g \<in> set (cascade_groups c s)"
    if "g \<in> set (payment_groups s)"
      and "g_chain (snd g) = Some c \<or>
        (\<exists>t \<in> set (tokens s). t_chain (snd t) = c \<and> g_token (snd g) = Some (fst t))" for g
  proof -
    from that(2) have "g_chain (snd g) = Some c \<or>
        (\<exists>k. g_token (snd g) = Some k \<and> k \<in> set (cascade_tokens c s))"
      by (force simp: in_cascade_tokens)
    moreover from that(1) have "(fst g, snd g) \<in> set (payment_groups s)"
      by simp
    ultimately show ?thesis
      unfolding in_cascade_groups by blast
  qed
  have pay_dead: "fst p \<in> set (cascade_payees c s)"
    if "p \<in> set (payees s)" "pe_payment_group (snd p) \<in> set (cascade_groups c s)" for p
  proof -
    from that have "(fst p, snd p) \<in> set (payees s) \<and>
        pe_payment_group (snd p) \<in> set (cascade_groups c s)"
      by simp
    then show ?thesis unfolding in_cascade_payees by blast
  qed
  have pmt_dead: "fst m \<in> set (cascade_payments c s)"
    if "m \<in> set (payments s)" "pm_payee (snd m) \<in> set (cascade_payees c s)" for m
  proof -
    from that have "(fst m, snd m) \<in> set (payments s) \<and>
        pm_payee (snd m) \<in> set (cascade_payees c s)"
      by simp
    then show ?thesis unfolding in_cascade_payments by blast
  qed
  have grp: "fst g \<notin> pks (payment_groups s')
      \<and> (\<forall>p \<in> set (payees s). pe_payment_group (snd p) = fst g
            \<longrightarrow> fst p \<notin> pks (payees s')
                \<and> (\<forall>m \<in> set (payments s). pm_payee (snd m) = fst p
                      \<longrightarrow> fst m \<notin> pks (payments s')))"
    if "g \<in> set (payment_groups s)"
      and "g_chain (snd g) = Some c \<or>
        (\<exists>t \<in> set (tokens s). t_chain (snd t) = c \<and> g_token (snd g) = Some (fst t))" for g
  proof -
    have g: "fst g \<in> set (cascade_groups c s)"
      using that by (rule grp_dead)
    have 1: "fst g \<notin> pks (payment_groups s')"
      unfolding assms tables_delete_chain using g by (rule dead_pk)
    have 2: "fst p \<notin> pks (payees s')
        \<and> (\<forall>m \<in> set (payments s). pm_payee (snd m) = fst p \<longrightarrow> fst m \<notin> pks (payments s'))"
      if p: "p \<in> set (payees s)" "pe_payment_group (snd p) = fst g" for p
    proof -
      from p g have d: "fst p \<in> set (cascade_payees c s)"
        by (intro pay_dead) simp_all
      have "fst p \<notin> pks (payees s')"
        unfolding assms tables_delete_chain using d by (rule dead_pk)
      moreover have "fst m \<notin> pks (payments s')"
        if "m \<in> set (payments s)" "pm_payee (snd m) = fst p" for m
      proof -
        from that d have "fst m \<in> set (cascade_payments c s)"
          by (intro pmt_dead) simp_all
        then show ?thesis unfolding assms tables_delete_chain by (rule dead_pk)
      qed
      ultimately show ?thesis by blast
    qed
    from 1 2 show ?thesis by blast
  qed
  have sub: "set (tokens s') \<subseteq> set (tokens s)" "set (payment_groups s') \<subseteq> set (payment_groups s)"
    "set (payees s') \<subseteq> set (payees s)" "set (payments s') \<subseteq> set (payments s)"
    "wallets s' = wallets s"
    unfolding assms tables_delete_chain by auto
  have keep_chain: "e \<in> set (chains s')" if "e \<in> set (chains s)" "fst e \<noteq> c" for e
    unfolding assms tables_delete_chain using that by simp
  have keep_tok: "t \<in> set (tokens s')"
    if "distinct (map fst (tokens s))" "t \<in> set (tokens s)" "t_chain (snd t) \<noteq> c" for t
  proof -
    have "fst t \<notin> set (cascade_tokens c s)"
    proof
      assume "fst t \<in> set (cascade_tokens c s)"
      then obtain r where r: "(fst t, r) \<in> set (tokens s)" "t_chain r = c"
        unfolding in_cascade_tokens by blast
      from that(2) have "(fst t, snd t) \<in> set (tokens s)" by simp
      with that(1) r(1) have "r = snd t" by (rule eq_key_imp_eq_value)
      with r(2) that(3) show False by simp
    qed
    with that(2) show ?thesis unfolding assms tables_delete_chain by simp
  qed
  from ok chain tok grp sub keep_chain keep_tok show ?thesis by blast
qed

text \<open>In the small database with Bob soft-deleted and a payment to him: deleting the
  first chain removes the token, the group, Bob and the payment, and leaves the second
  chain and the wallet.\<close>

theorem deleting_a_chain_removes_its_dependents_witness:
  "fst (delete_chain 1 paid_store) = None
   \<and> 1 \<notin> pks (chains (snd (delete_chain 1 paid_store)))
   \<and> 1 \<notin> pks (tokens (snd (delete_chain 1 paid_store)))
   \<and> 1 \<notin> pks (payment_groups (snd (delete_chain 1 paid_store)))
   \<and> 1 \<notin> pks (payees (snd (delete_chain 1 paid_store)))
   \<and> 1 \<notin> pks (payments (snd (delete_chain 1 paid_store)))
   \<and> (2, polygon) \<in> set (chains (snd (delete_chain 1 paid_store)))
   \<and> wallets (snd (delete_chain 1 paid_store)) = [(alice_address, alice)]"
proof -
  have t: "(1, usdc 1) \<in> set (tokens paid_store)" "t_chain (snd (1::nat, usdc (1::nat))) = 1"
    by (simp_all add: paid_store_eq usdc_def)
  have g: "(1, team (Some 1) (Some 1)) \<in> set (payment_groups paid_store)"
    "g_chain (snd (1::nat, team (Some (1::nat)) (Some (1::nat)))) = Some 1"
    by (simp_all add: paid_store_eq team_def)
  have p: "(1, (payee_of bob_address 1)\<lparr>pe_deleted_at := Some 9\<rparr>) \<in> set (payees paid_store)"
    "pe_payment_group (snd (1::nat, (payee_of bob_address 1)\<lparr>pe_deleted_at := Some 9\<rparr>)) = 1"
    by (simp_all add: paid_store_eq payee_of_def)
  have m: "(1, (payment_to 1)\<lparr>pm_created_at := 10, pm_updated_at := 10\<rparr>)
      \<in> set (payments paid_store)"
    "pm_payee (snd (1::nat, (payment_to 1)\<lparr>pm_created_at := 10, pm_updated_at := 10\<rparr>)) = 1"
    by (simp_all add: paid_store_eq payment_to_def)
  have c: "(2, polygon) \<in> set (chains paid_store)"
    by (simp add: paid_store_eq)
  have w: "wallets paid_store = [(alice_address, alice)]"
    by (simp add: paid_store_eq)
  note d = deleting_a_chain_removes_its_dependents [OF refl, of 1 paid_store]
  from d have 1: "fst (delete_chain 1 paid_store) = None"
    and 2: "1 \<notin> pks (chains (snd (delete_chain 1 paid_store)))"
    by blast+
  from d t have 3: "1 \<notin> pks (tokens (snd (delete_chain 1 paid_store)))"
    by (metis fst_conv)
  from d g have dg: "1 \<notin> pks (payment_groups (snd (delete_chain 1 paid_store)))
      \<and> (\<forall>p \<in> set (payees paid_store). pe_payment_group (snd p) = 1
            \<longrightarrow> fst p \<notin> pks (payees (snd (delete_chain 1 paid_store)))
                \<and> (\<forall>m \<in> set (payments paid_store). pm_payee (snd m) = fst p
                      \<longrightarrow> fst m \<notin> pks (payments (snd (delete_chain 1 paid_store)))))"
    by (metis fst_conv)
  with p have dp: "1 \<notin> pks (payees (snd (delete_chain 1 paid_store)))
      \<and> (\<forall>m \<in> set (payments paid_store). pm_payee (snd m) = 1
            \<longrightarrow> fst m \<notin> pks (payments (snd (delete_chain 1 paid_store))))"
    by (metis fst_conv)
  with m have 6: "1 \<notin> pks (payments (snd (delete_chain 1 paid_store)))"
    by (metis fst_conv)
  have ne: "fst (2::nat, polygon) \<noteq> 1"
    by simp
  from d have "\<forall>e \<in> set (chains paid_store). fst e \<noteq> 1
      \<longrightarrow> e \<in> set (chains (snd (delete_chain 1 paid_store)))"
    by blast
  with c ne have 7: "(2, polygon) \<in> set (chains (snd (delete_chain 1 paid_store)))"
    by blast
  from d w have 8: "wallets (snd (delete_chain 1 paid_store)) = [(alice_address, alice)]"
    by simp
  from 1 2 3 dg dp 6 7 8 show ?thesis by blast
qed

text \<open>
  Claim C6, as the code has it. Saving a payment succeeds exactly when the referenced
  payee row is in the payee table, soft-deleted or not; when there is no such row it is
  refused with a referential-integrity error and the store is returned as it was; when
  there is one the payment is stored, with its timestamps set. No other check is made.
\<close>

theorem payment_needs_a_payee_row:
  "(fst (save_payment p now r s) = None \<longleftrightarrow> pm_payee r \<in> pks (payees s))
   \<and> (pm_payee r \<notin> pks (payees s)
        \<longrightarrow> save_payment p now r s = (Some (ReferentialIntegrityError ''payee''), s))
   \<and> (pm_payee r \<in> pks (payees s)
        \<longrightarrow> (target_pk p (payments s),
              r\<lparr>pm_created_at := (if is_add p (payments s) then now else pm_created_at r),
                pm_updated_at := now\<rparr>)
            \<in> set (payments (snd (save_payment p now r s))))"
  by (simp add: save_payment_def set_put)

text \<open>In the small database: a payment to Bob (key 1) is stored, a payment to the
  payee of key 5, which does not exist, is refused.\<close>

theorem payment_needs_a_payee_row_witness:
  "fst (save_payment None 10 (payment_to 1) base_store) = None
   \<and> (1, (payment_to 1)\<lparr>pm_created_at := 10, pm_updated_at := 10\<rparr>)
       \<in> set (payments (snd (save_payment None 10 (payment_to 1) base_store)))
   \<and> save_payment None 10 (payment_to 5) base_store =
       (Some (ReferentialIntegrityError ''payee''), base_store)"
proof -
  have a: "pm_payee (payment_to 1) \<in> pks (payees base_store)"
    by (simp add: base_store_eq payment_to_def pks_def)
  have b: "pm_payee (payment_to 5) \<notin> pks (payees base_store)"
    by (simp add: base_store_eq payment_to_def pks_def)
  have c: "target_pk None (payments base_store) = 1" "is_add None (payments base_store)"
    by (simp_all add: base_store_eq target_pk_def next_pk_def is_add_def)
  from payment_needs_a_payee_row [of None 10 "payment_to 1" base_store]
    payment_needs_a_payee_row [of None 10 "payment_to 5" base_store] a b c
  show ?thesis by simp
qed

text \<open>The claim as stated fails: Bob's row has \<open>deleted_at = 9\<close>, and a payment that
  references it is stored.\<close>

theorem payment_to_soft_deleted_payee_is_stored:
  "map_of (payees bob_deleted_store) 1 = Some ((payee_of bob_address 1)\<lparr>pe_deleted_at := Some 9\<rparr>)
   \<and> save_payment None 10 (payment_to 1) bob_deleted_store = (None, paid_store)
   \<and> payments paid_store = [(1, (payment_to 1)\<lparr>pm_created_at := 10, pm_updated_at := 10\<rparr>)]"
  by (simp add: paid_store_eq) (simp add: bob_deleted_store_eq store_defs fixture_defs)

text \<open>
  Claim C1, as the code has it. For every payment group whose token is set, \<open>clean\<close>
  succeeds exactly when the group has a chain and it is the chain of the token; otherwise
  \<open>clean\<close> raises the validation error "If a token is specified, it must belong to the same
  chain.", and a creation that validates first returns that error and leaves the store
  as it was. When such a creation succeeds, the row it stores holds the token and the
  chain of that token. (\<open>save\<close> alone makes no such check.)
\<close>

theorem clean_accepts_only_the_chain_of_the_token:
  assumes "g_token self = Some t"
  shows "(clean self = Inr () \<longleftrightarrow>
            (\<exists>c. g_chain self = Some c \<and> pk c = pk (t_chain (row_of t))))
    \<and> (clean self \<noteq> Inr ()
         \<longrightarrow> clean self = Inl (ValidationError clean_message)
             \<and> create_payment_group now self s = (Some (ValidationError clean_message), s))
    \<and> (fst (create_payment_group now self s) = None
         \<longrightarrow> g_token (group_row self) = Some (pk t)
             \<and> g_chain (group_row self) = Some (pk (t_chain (row_of t)))
             \<and> (next_pk (payment_groups s),
                  (group_row self)\<lparr>g_created_at := now, g_updated_at := now\<rparr>)
                 \<in> set (payment_groups (snd (create_payment_group now self s))))"
proof -
  have iff: "clean self = Inr () \<longleftrightarrow>
      (\<exists>c. g_chain self = Some c \<and> pk c = pk (t_chain (row_of t)))"
    using assms by (cases "g_chain self") (simp_all add: clean_def py_bool_def model_ne_def)
  have bad: "clean self = Inl (ValidationError clean_message)" if "clean self \<noteq> Inr ()"
    using that assms by (simp add: clean_def split: if_splits)
  have refused: "create_payment_group now self s = (Some (ValidationError clean_message), s)"
    if "clean self \<noteq> Inr ()"
    using bad [OF that] by (simp add: create_payment_group_def)
  have stored: "g_token (group_row self) = Some (pk t)
      \<and> g_chain (group_row self) = Some (pk (t_chain (row_of t)))
      \<and> (next_pk (payment_groups s), (group_row self)\<lparr>g_created_at := now, g_updated_at := now\<rparr>)
          \<in> set (payment_groups (snd (create_payment_group now self s)))"
    if ok: "fst (create_payment_group now self s) = None"
  proof -
    have c: "clean self = Inr ()"
    proof (rule ccontr)
      assume "clean self \<noteq> Inr ()"
      from refused [OF this] ok show False by simp
    qed
    with iff obtain ch where ch: "g_chain self = Some ch" "pk ch = pk (t_chain (row_of t))"
      by blast
    from c have eq: "create_payment_group now self s =
        save_payment_group None now (group_row self) s"
      by (simp add: create_payment_group_def)
    from ok have saved: "snd (save_payment_group None now (group_row self) s) =
        s\<lparr>payment_groups :=
            put None ((group_row self)\<lparr>g_created_at := now, g_updated_at := now\<rparr>)
              (payment_groups s)\<rparr>"
      unfolding eq by (simp add: save_payment_group_def is_add_def split: if_splits)
    from assms ch show ?thesis
      unfolding eq saved by (simp add: group_row_def set_put target_pk_def)
  qed
  from iff bad refused stored show ?thesis by blast
qed

text \<open>In the small database: a group on the first chain with USDC of the first chain
  passes \<open>clean\<close> and is stored under the key 2; with the second chain it is refused.\<close>

theorem clean_accepts_only_the_chain_of_the_token_witness:
  "clean (team (Some ethereum_obj) (Some usdc_obj)) = Inr ()
   \<and> fst (create_payment_group 4 (team (Some ethereum_obj) (Some usdc_obj)) base_store) = None
   \<and> (2, (team (Some 1) (Some 1))\<lparr>g_created_at := 4, g_updated_at := 4\<rparr>)
       \<in> set (payment_groups
               (snd (create_payment_group 4 (team (Some ethereum_obj) (Some usdc_obj)) base_store)))
   \<and> clean (team (Some polygon_obj) (Some usdc_obj)) = Inl (ValidationError clean_message)
   \<and> create_payment_group 4 (team (Some polygon_obj) (Some usdc_obj)) base_store =
       (Some (ValidationError clean_message), base_store)"
proof -
  let ?good = "team (Some ethereum_obj) (Some usdc_obj)"
  let ?bad = "team (Some polygon_obj) (Some usdc_obj)"
  have t: "g_token ?good = Some usdc_obj" "g_token ?bad = Some usdc_obj"
    by (simp_all add: team_def)
  have m: "\<exists>c. g_chain ?good = Some c \<and> pk c = pk (t_chain (row_of usdc_obj))"
    by (simp add: team_def usdc_obj_def ethereum_obj_def usdc_def pk_def row_of_def)
  have n: "\<not> (\<exists>c. g_chain ?bad = Some c \<and> pk c = pk (t_chain (row_of usdc_obj)))"
    by (simp add: team_def usdc_obj_def ethereum_obj_def polygon_obj_def usdc_def pk_def
        row_of_def)
  have ok: "fst (create_payment_group 4 ?good base_store) = None"
    using m clean_accepts_only_the_chain_of_the_token [OF t(1), of 4 base_store]
    by (simp add: create_payment_group_def)
      (simp add: save_payment_group_def base_store_eq group_row_def team_def pks_def
        fk_ok_def usdc_obj_def ethereum_obj_def pk_def)
  have k: "next_pk (payment_groups base_store) = 2"
    by (simp add: base_store_eq next_pk_def)
  have row: "group_row ?good = team (Some 1) (Some 1)"
    by (simp add: group_row_def team_def usdc_obj_def ethereum_obj_def pk_def)
  from clean_accepts_only_the_chain_of_the_token [OF t(1), of 4 base_store]
    clean_accepts_only_the_chain_of_the_token [OF t(2), of 4 base_store] m n ok k row
  show ?thesis by simp
qed

text \<open>The claim as stated fails on its last part. \<open>save\<close> stores a group on the second
  chain with the token of key 1, which is on the first chain: no constraint of the
  storage layer relates the two columns, and \<open>save\<close> does not call \<open>clean\<close>. And a group
  that passed \<open>clean\<close> stops matching when its token is later saved with another chain.\<close>

theorem mismatched_group_is_stored:
  "fst (save_payment_group None 4 (team (Some 2) (Some 1)) base_store) = None
   \<and> map_of (payment_groups (snd (save_payment_group None 4 (team (Some 2) (Some 1)) base_store))) 2
       = Some ((team (Some 2) (Some 1))\<lparr>g_created_at := 4, g_updated_at := 4\<rparr>)
   \<and> map_of (tokens (snd (save_payment_group None 4 (team (Some 2) (Some 1)) base_store))) 1
       = Some (usdc 1)
   \<and> fst (create_payment_group 4 (team (Some ethereum_obj) (Some usdc_obj)) base_store) = None
   \<and> fst (save_token (Some 1) 5 (usdc 2)
        (snd (create_payment_group 4 (team (Some ethereum_obj) (Some usdc_obj)) base_store))) = None
   \<and> map_of (payment_groups (snd (save_token (Some 1) 5 (usdc 2)
        (snd (create_payment_group 4 (team (Some ethereum_obj) (Some usdc_obj)) base_store))))) 2
       = Some ((team (Some 1) (Some 1))\<lparr>g_created_at := 4, g_updated_at := 4\<rparr>)
   \<and> map_of (tokens (snd (save_token (Some 1) 5 (usdc 2)
        (snd (create_payment_group 4 (team (Some ethereum_obj) (Some usdc_obj)) base_store))))) 1
       = Some ((usdc 2)\<lparr>t_updated_at := 5\<rparr>)"
  by (simp add: create_payment_group_def clean_def py_bool_def model_ne_def group_row_def
      usdc_obj_def ethereum_obj_def pk_def row_of_def base_store_eq store_defs fixture_defs)

text \<open>
  Claim C9, as the code has it. A payment group with a token and no chain always fails
  \<open>clean\<close> with the validation error, because the chain of a token is never null; a
  creation that validates first returns that error and leaves the store as it was, and
  every token-denominated row that such a creation stores has a chain. (\<open>save\<close> alone
  makes no such check.)
\<close>

theorem clean_refuses_a_token_without_chain:
  "(g_token self \<noteq> None \<and> g_chain self = None
      \<longrightarrow> clean self = Inl (ValidationError clean_message)
          \<and> create_payment_group now self s = (Some (ValidationError clean_message), s))
   \<and> (g_token self \<noteq> None \<and> fst (create_payment_group now self s) = None
      \<longrightarrow> g_chain (group_row self) \<noteq> None
          \<and> g_token (group_row self) \<noteq> None
          \<and> (next_pk (payment_groups s),
               (group_row self)\<lparr>g_created_at := now, g_updated_at := now\<rparr>)
              \<in> set (payment_groups (snd (create_payment_group now self s))))"
proof -
  have refused: "clean self = Inl (ValidationError clean_message)
      \<and> create_payment_group now self s = (Some (ValidationError clean_message), s)"
    if "g_token self \<noteq> None" "g_chain self = None"
    using that
    by (auto simp: create_payment_group_def clean_def py_bool_def model_ne_def)
  have stored: "g_chain (group_row self) \<noteq> None \<and> g_token (group_row self) \<noteq> None
      \<and> (next_pk (payment_groups s), (group_row self)\<lparr>g_created_at := now, g_updated_at := now\<rparr>)
          \<in> set (payment_groups (snd (create_payment_group now self s)))"
    if t: "g_token self \<noteq> None" and ok: "fst (create_payment_group now self s) = None"
  proof -
    have ch: "g_chain self \<noteq> None"
    proof
      assume "g_chain self = None"
      from refused [OF t this] ok show False by simp
    qed
    have c: "clean self = Inr ()"
      using ok by (cases "clean self") (simp_all add: create_payment_group_def)
    then have eq: "create_payment_group now self s =
        save_payment_group None now (group_row self) s"
      by (simp add: create_payment_group_def)
    from ok have saved: "snd (save_payment_group None now (group_row self) s) =
        s\<lparr>payment_groups :=
            put None ((group_row self)\<lparr>g_created_at := now, g_updated_at := now\<rparr>)
              (payment_groups s)\<rparr>"
      unfolding eq by (simp add: save_payment_group_def is_add_def split: if_splits)
    from t ch show ?thesis
      unfolding eq saved by (auto simp: group_row_def set_put target_pk_def)
  qed
  from refused stored show ?thesis by blast
qed

text \<open>In the small database: USDC with no chain is refused; USDC with its chain is
  stored with that chain.\<close>

theorem clean_refuses_a_token_without_chain_witness:
  "clean (team None (Some usdc_obj)) = Inl (ValidationError clean_message)
   \<and> create_payment_group 4 (team None (Some usdc_obj)) base_store =
       (Some (ValidationError clean_message), base_store)
   \<and> fst (create_payment_group 6 (team (Some ethereum_obj) (Some usdc_obj)) base_store) = None
   \<and> g_chain (group_row (team (Some ethereum_obj) (Some usdc_obj))) = Some 1
   \<and> (2, (team (Some 1) (Some 1))\<lparr>g_created_at := 6, g_updated_at := 6\<rparr>)
       \<in> set (payment_groups
               (snd (create_payment_group 6 (team (Some ethereum_obj) (Some usdc_obj)) base_store)))"
proof -
  let ?good = "team (Some ethereum_obj) (Some usdc_obj)"
  let ?bad = "team None (Some usdc_obj) :: PaymentGroup_obj"
  have b: "g_token ?bad \<noteq> None" "g_chain ?bad = None"
    by (simp_all add: team_def)
  have g: "g_token ?good \<noteq> None"
    by (simp add: team_def)
  have ok: "fst (create_payment_group 6 ?good base_store) = None"
    by (simp add: create_payment_group_def clean_def py_bool_def model_ne_def group_row_def
        usdc_obj_def ethereum_obj_def pk_def row_of_def base_store_eq store_defs fixture_defs)
  have k: "next_pk (payment_groups base_store) = 2"
    by (simp add: base_store_eq next_pk_def)
  have row: "group_row ?good = team (Some 1) (Some 1)"
    by (simp add: group_row_def team_def usdc_obj_def ethereum_obj_def pk_def)
  have ch: "g_chain (team (Some (1::nat)) (Some (1::nat))) = Some 1"
    by (simp add: team_def)
  from clean_refuses_a_token_without_chain [of ?bad 4 base_store]
    clean_refuses_a_token_without_chain [of ?good 6 base_store] b g ok k row ch
  show ?thesis by simp
qed

text \<open>The claim as stated fails on its last part: \<open>save\<close> stores a group with the token
  of key 1 and no chain.\<close>

theorem token_group_without_chain_is_stored:
  "save_payment_group None 4 (team None (Some 1)) base_store =
     (None,
      base_store\<lparr>payment_groups :=
        [(2, (team None (Some 1))\<lparr>g_created_at := 4, g_updated_at := 4\<rparr>),
         (1, team (Some 1) (Some 1))]\<rparr>)
   \<and> g_token ((team None (Some 1) :: (nat, nat) PaymentGroup)\<lparr>g_created_at := 4, g_updated_at := 4\<rparr>)
       = Some 1
   \<and> g_chain ((team None (Some 1) :: (nat, nat) PaymentGroup)\<lparr>g_created_at := 4, g_updated_at := 4\<rparr>)
       = None"
  by (simp add: base_store_eq store_defs fixture_defs)

text \<open>
  Claim C7, as the code has it. The validators of the field \<open>wallet\<close> refuse every
  string that is not a syntactically valid Ethereum address (whatever the checksum rule
  is), and a creation of a payee that validates first then fails with a validation
  error and leaves the store as it was; in particular for the wallet "not-an-address".
  (\<open>save\<close> alone does not run the validators.)
\<close>

theorem malformed_wallet_fails_validation:
  "(\<not> (length w = 42 \<and> take 2 w = ''0x'' \<and> list_all is_hex_digit (drop 2 w) \<and> checksum w)
      \<longrightarrow> run_validators (payee_wallet_validators checksum) w =
            Inl (ValidationError address_message)
          \<and> create_payee checksum (r\<lparr>pe_wallet := w\<rparr>) s =
            (Some (ValidationError address_message), s))
   \<and> create_payee checksum (r\<lparr>pe_wallet := ''not-an-address''\<rparr>) s =
       (Some (ValidationError address_message), s)
   \<and> (length w = 42 \<and> take 2 w = ''0x'' \<and> list_all is_hex_digit (drop 2 w) \<and> checksum w
      \<longrightarrow> create_payee checksum (r\<lparr>pe_wallet := w\<rparr>) s = save_payee None (r\<lparr>pe_wallet := w\<rparr>) s)"
  by (simp add: create_payee_def payee_wallet_validators_def validate_ethereum_address_def)

text \<open>In the small database, with a checksum rule that accepts everything: a wallet
  of 41 characters is refused, "not-an-address" is refused, and a well-formed address is
  stored.\<close>

theorem malformed_wallet_fails_validation_witness:
  "create_payee (\<lambda>_. True) (payee_of ''0x0000000000000000000000000000000000000c3'' 1) base_store =
     (Some (ValidationError address_message), base_store)
   \<and> create_payee (\<lambda>_. True) (payee_of ''not-an-address'' 1) base_store =
     (Some (ValidationError address_message), base_store)
   \<and> fst (create_payee (\<lambda>_. True)
            (payee_of ''0x00000000000000000000000000000000000000c3'' 1) base_store) = None"
proof -
  let ?short = "''0x0000000000000000000000000000000000000c3''"
  let ?good = "''0x00000000000000000000000000000000000000c3''"
  have a: "\<not> (length ?short = 42 \<and> take 2 ?short = ''0x'' \<and>
      list_all is_hex_digit (drop 2 ?short) \<and> (\<lambda>_. True) ?short)"
    by simp
  have b: "length ?good = 42 \<and> take 2 ?good = ''0x'' \<and>
      list_all is_hex_digit (drop 2 ?good) \<and> (\<lambda>_. True) ?good"
    by (simp add: is_hex_digit_def)
  have w: "(payee_of x 1)\<lparr>pe_wallet := x\<rparr> = payee_of x 1" for x
    by (simp add: payee_of_def)
  have ok: "fst (save_payee None (payee_of ?good 1) base_store) = None"
    by (simp add: base_store_eq store_defs fixture_defs)
  from malformed_wallet_fails_validation
      [of ?short "\<lambda>_. True" "payee_of ?short 1" base_store]
    malformed_wallet_fails_validation
      [of ?good "\<lambda>_. True" "payee_of ?good 1" base_store]
    malformed_wallet_fails_validation
      [of ?good "\<lambda>_. True" "payee_of ''not-an-address'' 1" base_store]
    a b ok
  show ?thesis by (simp add: w payee_of_def)
qed

text \<open>The claim as stated fails: \<open>save\<close> stores a payee whose wallet is
  "not-an-address".\<close>

theorem payee_with_malformed_wallet_is_stored:
  "save_payee None (payee_of ''not-an-address'' 1) base_store =
     (None,
      base_store\<lparr>payees :=
        [(2, payee_of ''not-an-address'' 1), (1, payee_of bob_address 1)]\<rparr>)"
  by (simp add: base_store_eq store_defs fixture_defs)

end
